theory Spec2Isabelle
  imports Main
begin

section \<open>Python strings\<close>

text \<open>
  A Python \<open>str\<close> is a sequence of Unicode code points, so it is modelled as a list of
  natural numbers (the code points), not as bytes. \<open>ustr\<close> injects an ASCII literal.
\<close>

type_synonym pystr = "nat list"

definition ustr :: "string \<Rightarrow> pystr" where
  "ustr s = map of_char s"

text \<open>
  \<open>str.isspace\<close> on one code point: the characters of bidirectional type WS, B or S and
  of category Zs. Note the four ASCII separators \<open>0x1C\<close> .. \<open>0x1F\<close>.
\<close>

definition isspace :: "nat \<Rightarrow> bool" where
  "isspace c \<longleftrightarrow>
     (0x09 \<le> c \<and> c \<le> 0x0D) \<or> (0x1C \<le> c \<and> c \<le> 0x20) \<or> c = 0x85 \<or> c = 0xA0 \<or>
     c = 0x1680 \<or> (0x2000 \<le> c \<and> c \<le> 0x200A) \<or> c = 0x2028 \<or> c = 0x2029 \<or>
     c = 0x202F \<or> c = 0x205F \<or> c = 0x3000"

text \<open>\<open>s.strip()\<close>: whitespace removed at both ends.\<close>

definition strip :: "pystr \<Rightarrow> pystr" where
  "strip s = rev (dropWhile isspace (rev (dropWhile isspace s)))"

text \<open>\<open>s.lstrip(chars)\<close>: every leading character that occurs in \<open>chars\<close> is removed.\<close>

definition lstrip :: "pystr \<Rightarrow> pystr \<Rightarrow> pystr" where
  "lstrip chars s = dropWhile (\<lambda>c. c \<in> set chars) s"

text \<open>Decimal digits of a natural number.\<close>

function dec :: "nat \<Rightarrow> pystr" where
  "dec n = (if n < 10 then [48 + n] else dec (n div 10) @ [48 + n mod 10])"
  by pat_completeness auto
termination
proof (relation "measure id")
  show "wf (measure id)" by simp
next
  fix n :: nat
  assume "\<not> n < 10"
  then have "n div 10 < n" by simp
  then show "(n div 10, n) \<in> measure id" by simp
qed

declare dec.simps [simp del]

section \<open>Exceptions\<close>

text \<open>
  The classes of exception that the modelled code raises or names in an \<open>except\<close> clause.
  All of them derive from \<open>Exception\<close>; \<open>OtherException\<close> stands for any further subclass
  of \<open>Exception\<close>. Asynchronous \<open>BaseException\<close>s (\<open>KeyboardInterrupt\<close>, \<open>SystemExit\<close>)
  are not results of a call and are outside the model.
\<close>

datatype py_exception =
    ValueError | TypeError | OverflowError | UnicodeEncodeError | JSONDecodeError
  | Timeout | ConnectionError | HTTPError | RequestException
  | OtherException pystr

text \<open>\<open>isinstance(e, C)\<close> for the classes used in \<open>except\<close> clauses (subclasses included).\<close>

definition is_ValueError :: "py_exception \<Rightarrow> bool" where
  "is_ValueError e \<longleftrightarrow> e = ValueError \<or> e = UnicodeEncodeError \<or> e = JSONDecodeError"

definition is_TypeError :: "py_exception \<Rightarrow> bool" where
  "is_TypeError e \<longleftrightarrow> e = TypeError"

definition is_RequestException :: "py_exception \<Rightarrow> bool" where
  "is_RequestException e \<longleftrightarrow>
     e = Timeout \<or> e = ConnectionError \<or> e = HTTPError \<or> e = RequestException"

section \<open>Integers as text\<close>

text \<open>
  Converting between an integer and its decimal text is limited: above
  \<open>sys.get_int_max_str_digits()\<close> digits, 4300 unless the interpreter is configured
  otherwise (the program does not configure it), either direction raises \<open>ValueError\<close>.
  \<open>int_digits\<close> gives the digits of the absolute value, or that error.
\<close>

definition int_max_str_digits :: nat where
  "int_max_str_digits = 4300"

definition int_digits :: "int \<Rightarrow> py_exception + pystr" where
  "int_digits n =
     (if int_max_str_digits < length (dec (nat \<bar>n\<bar>)) then Inl ValueError
      else Inr (dec (nat \<bar>n\<bar>)))"

definition int_str :: "int \<Rightarrow> py_exception + pystr" where
  "int_str n =
     (case int_digits n of
        Inl e \<Rightarrow> Inl e
      | Inr ds \<Rightarrow> Inr (if n < 0 then 45 # ds else ds))"

section \<open>Values handed to the template filters\<close>

text \<open>
  A float is \<open>m * 2 ^ e\<close>, an infinity or a NaN (a double has \<open>\<bar>m\<bar> < 2 ^ 53\<close> and
  \<open>e \<le> 971\<close>; other pairs are no floats). \<open>repr\<close> of a finite float is not computed
  by the model: the value carries that text. \<open>PObj\<close> is any other object (a list, a
  dict) for which \<open>int()\<close> raises \<open>TypeError\<close>; it carries its \<open>str()\<close> text.
\<close>

datatype pyfloat = Finite int int pystr | PosInf | NegInf | NaN

datatype pyval =
    PNone | PBool bool | PInt int | PFloat pyfloat | PStr pystr | PObj pystr

definition float_str :: "pyfloat \<Rightarrow> pystr" where
  "float_str f = (case f of Finite m e r \<Rightarrow> r | PosInf \<Rightarrow> ustr ''inf''
                  | NegInf \<Rightarrow> ustr ''-inf'' | NaN \<Rightarrow> ustr ''nan'')"

text \<open>\<open>int(f)\<close> for a float: truncation towards zero; infinities and NaN raise.\<close>

definition float_int :: "pyfloat \<Rightarrow> py_exception + int" where
  "float_int f = (case f of
       Finite m e r \<Rightarrow>
         Inr (if 0 \<le> e then m * 2 ^ nat e
              else if 0 \<le> m then m div 2 ^ nat (- e)
              else - ((- m) div 2 ^ nat (- e)))
     | PosInf \<Rightarrow> Inl OverflowError
     | NegInf \<Rightarrow> Inl OverflowError
     | NaN \<Rightarrow> Inl ValueError)"

subsection \<open>\<open>int(s)\<close> for a string\<close>

text \<open>
  The code points with a decimal digit value come in runs of ten, \<open>0\<close> to \<open>9\<close>; the table
  lists the zero of each run (Unicode 14).
\<close>

definition decimal_zeros :: "nat list" where
  "decimal_zeros =
    [0x30, 0x660, 0x6F0, 0x7C0, 0x966, 0x9E6, 0xA66, 0xAE6, 0xB66, 0xBE6, 0xC66, 0xCE6,
     0xD66, 0xDE6, 0xE50, 0xED0, 0xF20, 0x1040, 0x1090, 0x17E0, 0x1810, 0x1946, 0x19D0,
     0x1A80, 0x1A90, 0x1B50, 0x1BB0, 0x1C40, 0x1C50, 0xA620, 0xA8D0, 0xA900, 0xA9D0,
     0xA9F0, 0xAA50, 0xABF0, 0xFF10, 0x104A0, 0x10D30, 0x11066, 0x110F0, 0x11136,
     0x111D0, 0x112F0, 0x11450, 0x114D0, 0x11650, 0x116C0, 0x11730, 0x118E0, 0x11950,
     0x11C50, 0x11D50, 0x11DA0, 0x16A60, 0x16AC0, 0x16B50, 0x1D7CE, 0x1D7D8, 0x1D7E2,
     0x1D7EC, 0x1D7F6, 0x1E140, 0x1E2F0, 0x1E950, 0x1FBF0]"

definition todecimal :: "nat \<Rightarrow> nat option" where
  "todecimal c = (case find (\<lambda>z. z \<le> c \<and> c < z + 10) decimal_zeros of
                    None \<Rightarrow> None | Some z \<Rightarrow> Some (c - z))"

text \<open>
  First pass of \<open>int(s)\<close>: a character below 127 is kept, other whitespace becomes a
  blank, other decimal digits become ASCII digits, and the first character that is
  neither becomes \<open>?\<close> and ends the text.
\<close>

fun transform_decimal_and_space :: "pystr \<Rightarrow> pystr" where
  "transform_decimal_and_space [] = []"
| "transform_decimal_and_space (c # cs) =
     (if c < 127 then c # transform_decimal_and_space cs
      else if isspace c then 32 # transform_decimal_and_space cs
      else (case todecimal c of
              Some d \<Rightarrow> (48 + d) # transform_decimal_and_space cs
            | None \<Rightarrow> [63]))"

definition ascii_isspace :: "nat \<Rightarrow> bool" where
  "ascii_isspace c \<longleftrightarrow> (9 \<le> c \<and> c \<le> 13) \<or> c = 32"

definition is_digit :: "nat \<Rightarrow> bool" where
  "is_digit c \<longleftrightarrow> 48 \<le> c \<and> c \<le> 57"

text \<open>
  The digits after the first one, with the value read so far and the number of digits
  read so far: single underscores are allowed between digits only. The result is the
  value, the number of digits and the unread rest.
\<close>

fun scan_digits :: "nat \<Rightarrow> nat \<Rightarrow> pystr \<Rightarrow> (nat \<times> nat \<times> pystr) option" where
  "scan_digits acc k [] = Some (acc, k, [])"
| "scan_digits acc k [c] =
     (if is_digit c then Some (acc * 10 + (c - 48), Suc k, [])
      else if c = 95 then None
      else Some (acc, k, [c]))"
| "scan_digits acc k (c # d # ds) =
     (if is_digit c then scan_digits (acc * 10 + (c - 48)) (Suc k) (d # ds)
      else if c = 95 then
        (if is_digit d then scan_digits (acc * 10 + (d - 48)) (Suc k) ds else None)
      else Some (acc, k, c # d # ds))"

text \<open>
  Second pass: blanks, an optional sign, the digits, blanks, and nothing else; more
  digits than the limit (leading zeros counted, underscores not) are an error too.
\<close>

definition parse_int :: "pystr \<Rightarrow> int option" where
  "parse_int s =
     (let s1 = dropWhile ascii_isspace s;
          neg = (s1 \<noteq> [] \<and> hd s1 = 45);
          s2 = (if s1 \<noteq> [] \<and> (hd s1 = 43 \<or> hd s1 = 45) then tl s1 else s1)
      in case s2 of
           [] \<Rightarrow> None
         | c # cs \<Rightarrow>
             if is_digit c then
               (case scan_digits (c - 48) 1 cs of
                  None \<Rightarrow> None
                | Some (v, k, rest) \<Rightarrow>
                    if int_max_str_digits < k then None
                    else if dropWhile ascii_isspace rest = []
                    then Some (if neg then - int v else int v)
                    else None)
             else None)"

definition str_int :: "pystr \<Rightarrow> py_exception + int" where
  "str_int s = (case parse_int (transform_decimal_and_space s) of
                  None \<Rightarrow> Inl ValueError | Some n \<Rightarrow> Inr n)"

subsection \<open>\<open>int(value)\<close> and \<open>str(value)\<close>\<close>

fun py_int :: "pyval \<Rightarrow> py_exception + int" where
  "py_int PNone = Inl TypeError"
| "py_int (PBool b) = Inr (if b then 1 else 0)"
| "py_int (PInt n) = Inr n"
| "py_int (PFloat f) = float_int f"
| "py_int (PStr s) = str_int s"
| "py_int (PObj r) = Inl TypeError"

fun py_str :: "pyval \<Rightarrow> py_exception + pystr" where
  "py_str PNone = Inr (ustr ''None'')"
| "py_str (PBool b) = Inr (if b then ustr ''True'' else ustr ''False'')"
| "py_str (PInt n) = int_str n"
| "py_str (PFloat f) = Inr (float_str f)"
| "py_str (PStr s) = Inr s"
| "py_str (PObj r) = Inr r"

subsection \<open>Format specifications\<close>

text \<open>
  \<open>"{:,}".format(n)\<close>: a comma between groups of three digits, counted from the right.
  \<open>group3\<close> works on the reversed digits.
\<close>

fun group3 :: "pystr \<Rightarrow> pystr" where
  "group3 (a # b # c # d # rest) = a # b # c # 44 # group3 (d # rest)"
| "group3 xs = xs"

definition format_comma :: "int \<Rightarrow> py_exception + pystr" where
  "format_comma n =
     (case int_digits n of
        Inl e \<Rightarrow> Inl e
      | Inr ds \<Rightarrow> Inr ((if n < 0 then [45] else []) @ rev (group3 (rev ds))))"

text \<open>\<open>f"{n:02d}"\<close>: zero-filled to width two, the sign counted in the width.\<close>

definition format_02d :: "int \<Rightarrow> py_exception + pystr" where
  "format_02d n =
     (case int_digits n of
        Inl e \<Rightarrow> Inl e
      | Inr ds \<Rightarrow> Inr (if n < 0 then 45 # ds else replicate (2 - length ds) 48 @ ds))"

section \<open>The template filters\<close>

text \<open>
  Both filters return \<open>Inr\<close> the text, or \<open>Inl\<close> the exception that leaves the function.
  \<open>tried\<close> is what the \<open>try\<close> block returns or raises; an exception that the
  \<open>except (ValueError, TypeError)\<close> clause does not name propagates, and so does one
  raised by \<open>str(value)\<close> inside that clause.
\<close>

definition format_number :: "pyval \<Rightarrow> py_exception + pystr" where
  "format_number v =
     (if v = PNone then Inr (ustr ''0'')
      else (let tried = (case py_int v of Inl e \<Rightarrow> Inl e | Inr n \<Rightarrow> format_comma n)
            in case tried of
                 Inr t \<Rightarrow> Inr t
               | Inl e \<Rightarrow> if is_ValueError e \<or> is_TypeError e then py_str v else Inl e))"

definition format_duration :: "pyval \<Rightarrow> py_exception + pystr" where
  "format_duration v =
     (if v = PNone then Inr (ustr ''0:00'')
      else (let tried =
                 (case py_int v of
                    Inl e \<Rightarrow> Inl e
                  | Inr n \<Rightarrow>
                      (let minutes = n div 60; seconds = n mod 60
                       in case int_str minutes of
                            Inl e \<Rightarrow> Inl e
                          | Inr m \<Rightarrow>
                              (case format_02d seconds of
                                 Inl e \<Rightarrow> Inl e
                               | Inr sec \<Rightarrow> Inr (m @ ustr '':'' @ sec))))
            in case tried of
                 Inr t \<Rightarrow> Inr t
               | Inl e \<Rightarrow>
                   if is_ValueError e \<or> is_TypeError e then Inr (ustr ''0:00'') else Inl e))"

section \<open>The upstream API as seen by the Gateway\<close>

text \<open>The decoded JSON payload: what \<open>response.json()\<close> returns. \<open>JNull\<close> is \<open>None\<close>.\<close>

datatype json =
    JNull | JBool bool | JInt int | JFloat pyfloat | JStr pystr
  | JList "json list" | JDict "(pystr \<times> json) list"

text \<open>
  A response object: its \<open>status_code\<close>, and what calling \<open>response.json()\<close> does
  (the decoded body, or the exception it raises).
\<close>

record response =
  status_code :: int
  json_result :: "py_exception + json"

text \<open>\<open>requests.get(url, timeout=15)\<close> either raises or returns a response.\<close>

datatype get_result = GetRaises py_exception | GetReturns response

text \<open>
  The network is a parameter: a transition on a world of any type \<open>'w\<close>. The state also
  records, in order, the endpoints the Gateway was called with and the URLs that were
  passed to \<open>requests.get\<close>; the code does not read them back.
\<close>

type_synonym 'w http = "pystr \<Rightarrow> 'w \<Rightarrow> get_result \<times> 'w"

record 'w state =
  world :: 'w
  gateway_calls :: "pystr list"
  http_gets :: "pystr list"

definition DEEZER_BASE_URL :: pystr where
  "DEEZER_BASE_URL = ustr ''https://api.deezer.com''"

text \<open>\<open>isinstance(data, dict) and key in data\<close>.\<close>

definition dict_has_key :: "json \<Rightarrow> pystr \<Rightarrow> bool" where
  "dict_has_key data key =
     (case data of JDict kvs \<Rightarrow> key \<in> fst ` set kvs | _ \<Rightarrow> False)"

section \<open>The standard output\<close>

text \<open>
  Every \<open>print\<close> of the program writes one line of diagnostics. A line is kept as the
  statement that prints it, with the values it shows. Printing is a call into the
  environment: it returns, or it raises (a \<open>UnicodeEncodeError\<close> when the stream's
  encoding has no code for a character of the line, as for the symbol each line starts
  with on an ASCII or cp1252 stream, or for a lone surrogate on a UTF-8 stream). The
  standard output is a parameter: the exception that printing a line raises, if any.
\<close>

datatype message =
    MakingRequest pystr
  | ResponseStatus int
  | HttpErrorStatus int
  | DeezerApiError json
  | RequestSuccessful
  | TimeoutMessage
  | ConnectionMessage
  | HttpErrorMessage py_exception
  | RequestErrorMessage py_exception
  | JsonDecodeMessage py_exception
  | ResponseText "response option"
  | UnexpectedError py_exception
  | SearchCalled pystr pystr
  | SearchingFor pystr pystr
  | ApiUrl pystr
  | SearchCompleted
  | ResultsKeys "pystr list"
  | ResultsCount nat
  | NoDataKey
  | UnexpectedResultsType json
  | NoSearchResults
  | SearchError py_exception
  | SearchErrorType py_exception
  | SearchTraceback py_exception

type_synonym stdout = "message \<Rightarrow> py_exception option"

text \<open>\<open>print(m)\<close> followed by the rest of the block: a raising \<open>print\<close> ends the block.\<close>

definition print_then :: "stdout \<Rightarrow> message \<Rightarrow> py_exception + 'a \<Rightarrow> py_exception + 'a" where
  "print_then out m rest = (case out m of Some e \<Rightarrow> Inl e | None \<Rightarrow> rest)"

section \<open>The Gateway\<close>

text \<open>
  The first two statements of \<open>make_api_request\<close>:
  \<open>endpoint = endpoint.strip().lstrip('/')\<close> and \<open>url = f"{DEEZER_BASE_URL}/{endpoint}"\<close>.
\<close>

definition request_url :: "pystr \<Rightarrow> pystr" where
  "request_url endpoint0 =
     (let endpoint = lstrip (ustr ''/'') (strip endpoint0)
      in DEEZER_BASE_URL @ ustr ''/'' @ endpoint)"

text \<open>
  The statements of the \<open>try\<close> block after \<open>response = requests.get(url, timeout=15)\<close>:
  \<open>Inr\<close> the value returned, or \<open>Inl\<close> the exception raised. The line on an upstream
  error shows \<open>data['error']\<close>; it is kept with the payload.
\<close>

definition make_api_request_try :: "stdout \<Rightarrow> response \<Rightarrow> py_exception + json" where
  "make_api_request_try out response =
     print_then out (ResponseStatus (status_code response))
       (if status_code response \<noteq> 200 then
          print_then out (HttpErrorStatus (status_code response)) (Inr JNull)
        else (case json_result response of
                Inl e \<Rightarrow> Inl e
              | Inr data \<Rightarrow>
                  if dict_has_key data (ustr ''error'') then
                    print_then out (DeezerApiError data) (Inr JNull)
                  else print_then out RequestSuccessful (Inr data)))"

text \<open>
  The chain of \<open>except\<close> clauses, in the order of the source, for the exception \<open>e\<close>
  raised in the \<open>try\<close> block; \<open>local_response\<close> is the response when it was assigned
  before (\<open>'response' in locals()\<close>). Each clause prints and returns \<open>None\<close>; an exception
  raised by a \<open>print\<close> inside a clause leaves the function.
\<close>

definition make_api_request_except ::
  "stdout \<Rightarrow> response option \<Rightarrow> py_exception \<Rightarrow> py_exception + json" where
  "make_api_request_except out local_response e =
     (if e = Timeout then print_then out TimeoutMessage (Inr JNull)
      else if e = ConnectionError then print_then out ConnectionMessage (Inr JNull)
      else if e = HTTPError then print_then out (HttpErrorMessage e) (Inr JNull)
      else if is_RequestException e then print_then out (RequestErrorMessage e) (Inr JNull)
      else if e = JSONDecodeError then
        print_then out (JsonDecodeMessage e)
          (print_then out (ResponseText local_response) (Inr JNull))
      else print_then out (UnexpectedError e) (Inr JNull))"

text \<open>
  \<open>make_api_request\<close>: the result is \<open>Inr\<close> the returned value (\<open>JNull\<close> for \<open>None\<close>) or
  \<open>Inl\<close> an exception that leaves the function. The first \<open>print\<close> comes before the
  request: when it raises, no request is made.
\<close>

definition make_api_request ::
  "stdout \<Rightarrow> 'w http \<Rightarrow> pystr \<Rightarrow> 'w state \<Rightarrow> (py_exception + json) \<times> 'w state" where
  "make_api_request out requests_get endpoint0 s0 =
     (let s1 = s0\<lparr>gateway_calls := gateway_calls s0 @ [endpoint0]\<rparr>;
          url = request_url endpoint0
      in (case out (MakingRequest url) of
            Some e \<Rightarrow> (make_api_request_except out None e, s1)
          | None \<Rightarrow>
              (let (got, w) = requests_get url (world s1);
                   s2 = s1\<lparr>world := w, http_gets := http_gets s1 @ [url]\<rparr>
               in (case got of
                     GetRaises e \<Rightarrow> (make_api_request_except out None e, s2)
                   | GetReturns response \<Rightarrow>
                       (case make_api_request_try out response of
                          Inr v \<Rightarrow> (Inr v, s2)
                        | Inl e \<Rightarrow> (make_api_request_except out (Some response) e, s2))))))"

section \<open>Percent-encoding of the query\<close>

text \<open>
  \<open>requests.utils.quote\<close> is \<open>urllib.parse.quote\<close> with its defaults: the text is encoded
  as UTF-8 (strictly: a surrogate raises), and every byte that is not a letter, a digit,
  one of \<open>_.-~\<close> or the default safe character \<open>/\<close> is written as \<open>%XX\<close>. A number
  from \<open>0x110000\<close> on is no code point; no Python string holds one.
\<close>

definition utf8_char :: "nat \<Rightarrow> py_exception + nat list" where
  "utf8_char c =
     (if c < 0x80 then Inr [c]
      else if c < 0x800 then Inr [0xC0 + c div 64, 0x80 + c mod 64]
      else if 0xD800 \<le> c \<and> c \<le> 0xDFFF then Inl UnicodeEncodeError
      else if c < 0x10000 then
        Inr [0xE0 + c div 4096, 0x80 + c div 64 mod 64, 0x80 + c mod 64]
      else if c < 0x110000 then
        Inr [0xF0 + c div 262144, 0x80 + c div 4096 mod 64, 0x80 + c div 64 mod 64,
             0x80 + c mod 64]
      else Inl UnicodeEncodeError)"

fun utf8_encode :: "pystr \<Rightarrow> py_exception + nat list" where
  "utf8_encode [] = Inr []"
| "utf8_encode (c # cs) =
     (case utf8_char c of
        Inl e \<Rightarrow> Inl e
      | Inr bs \<Rightarrow> (case utf8_encode cs of Inl e \<Rightarrow> Inl e | Inr rest \<Rightarrow> Inr (bs @ rest)))"

definition always_safe :: "nat \<Rightarrow> bool" where
  "always_safe b \<longleftrightarrow>
     (65 \<le> b \<and> b \<le> 90) \<or> (97 \<le> b \<and> b \<le> 122) \<or> (48 \<le> b \<and> b \<le> 57) \<or>
     b = 95 \<or> b = 46 \<or> b = 45 \<or> b = 126"

definition hex_digit :: "nat \<Rightarrow> nat" where
  "hex_digit n = (if n < 10 then 48 + n else 55 + n)"

definition quoter :: "nat \<Rightarrow> pystr" where
  "quoter b = (if always_safe b \<or> b = 47 then [b]
               else [37, hex_digit (b div 16), hex_digit (b mod 16)])"

definition quote :: "pystr \<Rightarrow> py_exception + pystr" where
  "quote string =
     (if string = [] then Inr []
      else (case utf8_encode string of
              Inl e \<Rightarrow> Inl e
            | Inr bs \<Rightarrow> Inr (concat (map quoter bs))))"

section \<open>Route handlers\<close>

text \<open>
  The template engine is an external collaborator: \<open>render_template(name, **context)\<close>
  is kept as the pair of the template name and the context it was called with. A context
  value is a payload, a string, or the text \<open>str(e)\<close> of a caught exception.
\<close>

datatype ctxval = Payload json | Text pystr | ErrorText py_exception

datatype page = Rendered pystr "(pystr \<times> ctxval) list"

text \<open>\<open>request.args.get(key, default)\<close>: the first value sent for the key.\<close>

definition args_get :: "(pystr \<times> pystr) list \<Rightarrow> pystr \<Rightarrow> pystr \<Rightarrow> pystr" where
  "args_get args key dflt = (case map_of args key of None \<Rightarrow> dflt | Some v \<Rightarrow> v)"

text \<open>\<open>len(x)\<close> on a payload: numbers, booleans and \<open>None\<close> have no length.\<close>

definition py_len :: "json \<Rightarrow> py_exception + nat" where
  "py_len x = (case x of
       JStr t \<Rightarrow> Inr (length t)
     | JList xs \<Rightarrow> Inr (length xs)
     | JDict kvs \<Rightarrow> Inr (length kvs)
     | _ \<Rightarrow> Inl TypeError)"

text \<open>
  The diagnostic block of \<open>search\<close> after the Gateway call. It only prints, but a
  \<open>print\<close> may raise and \<open>len(results.get('data', []))\<close> raises when the payload's
  \<open>data\<close> has no length. The result is the exception raised, if any.
\<close>

definition search_diagnostics :: "stdout \<Rightarrow> json \<Rightarrow> py_exception option" where
  "search_diagnostics out results =
     (if results \<noteq> JNull then
        (case out SearchCompleted of
           Some e \<Rightarrow> Some e
         | None \<Rightarrow>
             (case results of
                JDict kvs \<Rightarrow>
                  (case out (ResultsKeys (map fst kvs)) of
                     Some e \<Rightarrow> Some e
                   | None \<Rightarrow>
                       (case map_of kvs (ustr ''data'') of
                          None \<Rightarrow> out NoDataKey
                        | Some d \<Rightarrow>
                            (case py_len d of
                               Inl e \<Rightarrow> Some e
                             | Inr n \<Rightarrow> out (ResultsCount n))))
              | _ \<Rightarrow> out (UnexpectedResultsType results)))
      else out NoSearchResults)"

text \<open>
  The \<open>try\<close> block of \<open>search\<close> up to its \<open>return\<close>: \<open>Inr\<close> the \<open>results\<close> it reaches
  the \<open>return\<close> with, or \<open>Inl\<close> the exception raised before.
\<close>

definition search_try ::
  "stdout \<Rightarrow> 'w http \<Rightarrow> (pystr \<times> pystr) list \<Rightarrow> 'w state \<Rightarrow> (py_exception + json) \<times> 'w state"
  where
  "search_try out requests_get args s0 =
     (let query = args_get args (ustr ''q'') [];
          search_type = args_get args (ustr ''type'') (ustr ''track'')
      in (case out (SearchCalled query search_type) of
            Some e \<Rightarrow> (Inl e, s0)
          | None \<Rightarrow>
              if query \<noteq> [] then
                (case out (SearchingFor query search_type) of
                   Some e \<Rightarrow> (Inl e, s0)
                 | None \<Rightarrow>
                     (case quote query of
                        Inl e \<Rightarrow> (Inl e, s0)
                      | Inr encoded_query \<Rightarrow>
                          (let api_url = ustr ''search/'' @ search_type @ ustr ''?q='' @
                                         encoded_query @ ustr ''&limit=10''
                           in (case out (ApiUrl (DEEZER_BASE_URL @ ustr ''/'' @ api_url)) of
                                 Some e \<Rightarrow> (Inl e, s0)
                               | None \<Rightarrow>
                                   (case make_api_request out requests_get api_url s0 of
                                      (Inl e, s) \<Rightarrow> (Inl e, s)
                                    | (Inr results, s) \<Rightarrow>
                                        (case search_diagnostics out results of
                                           Some e \<Rightarrow> (Inl e, s)
                                         | None \<Rightarrow> (Inr results, s)))))))
              else (Inr JNull, s0)))"

text \<open>
  \<open>search\<close>: the \<open>return\<close> of the \<open>try\<close> block, or the \<open>except Exception\<close> clause, which
  prints three lines and renders the same template with no results and the error text.
  An exception raised by a \<open>print\<close> inside the clause leaves the handler.
\<close>

definition search ::
  "stdout \<Rightarrow> 'w http \<Rightarrow> (pystr \<times> pystr) list \<Rightarrow> 'w state \<Rightarrow> (py_exception + page) \<times> 'w state"
  where
  "search out requests_get args s0 =
     (case search_try out requests_get args s0 of
        (Inr results, s1) \<Rightarrow>
          (Inr (Rendered (ustr ''search.html'')
                 [(ustr ''results'', Payload results),
                  (ustr ''query'', Text (args_get args (ustr ''q'') [])),
                  (ustr ''search_type'', Text (args_get args (ustr ''type'') (ustr ''track'')))]),
           s1)
      | (Inl e, s1) \<Rightarrow>
          (print_then out (SearchError e)
             (print_then out (SearchErrorType e)
                (print_then out (SearchTraceback e)
                   (Inr (Rendered (ustr ''search.html'')
                          [(ustr ''results'', Payload JNull),
                           (ustr ''query'', Text (args_get args (ustr ''q'') [])),
                           (ustr ''search_type'',
                              Text (args_get args (ustr ''type'') (ustr ''track''))),
                           (ustr ''error'', ErrorText e)])))),
           s1))"

text \<open>\<open>artist_detail\<close> prints nothing itself.\<close>

definition artist_detail ::
  "stdout \<Rightarrow> 'w http \<Rightarrow> pystr \<Rightarrow> 'w state \<Rightarrow> (py_exception + page) \<times> 'w state" where
  "artist_detail out requests_get artist_id s0 =
     (case make_api_request out requests_get (ustr ''artist/'' @ artist_id) s0 of
        (Inl e, s1) \<Rightarrow> (Inl e, s1)
      | (Inr artist_data, s1) \<Rightarrow>
          (case make_api_request out requests_get
                  (ustr ''artist/'' @ artist_id @ ustr ''/top?limit=10'') s1 of
             (Inl e, s2) \<Rightarrow> (Inl e, s2)
           | (Inr top_tracks, s2) \<Rightarrow>
               (Inr (Rendered (ustr ''detail.html'')
                      [(ustr ''data'', Payload artist_data),
                       (ustr ''top_tracks'', Payload top_tracks),
                       (ustr ''title'', Text (ustr ''Artist Details'')),
                       (ustr ''type'', Text (ustr ''artist''))]), s2)))"

section \<open>Notions of the specification and sample environments\<close>

text \<open>A text that neither begins nor ends with whitespace.\<close>

definition trimmed :: "pystr \<Rightarrow> bool" where
  "trimmed u \<longleftrightarrow> u = [] \<or> (\<not> isspace (hd u) \<and> \<not> isspace (last u))"

text \<open>A text that does not begin with the separator \<open>/\<close> (code point 47).\<close>

definition no_leading_separator :: "pystr \<Rightarrow> bool" where
  "no_leading_separator n \<longleftrightarrow> n = [] \<or> hd n \<noteq> 47"

text \<open>
  An endpoint that is already trimmed: it neither begins nor ends with whitespace and
  does not begin with the separator \<open>/\<close> (code point 47).
\<close>

definition normalised :: "pystr \<Rightarrow> bool" where
  "normalised t \<longleftrightarrow> t = [] \<or> (\<not> isspace (hd t) \<and> hd t \<noteq> 47 \<and> \<not> isspace (last t))"

text \<open>
  The specification's wording of the second half of step 1, "strip one leading
  path-separator character if present", to be compared with \<open>lstrip\<close>.
\<close>

definition strip_one_separator :: "pystr \<Rightarrow> pystr" where
  "strip_one_separator t = (case t of [] \<Rightarrow> [] | c # cs \<Rightarrow> if c = 47 then cs else c # cs)"

text \<open>The reserved characters of RFC 3986 (\<open>gen-delims\<close> and \<open>sub-delims\<close>).\<close>

definition rfc3986_reserved :: "nat \<Rightarrow> bool" where
  "rfc3986_reserved c \<longleftrightarrow> c \<in> set (ustr '':/?#[]@!$&()*+,;='') \<or> c = 39"

text \<open>A code point that UTF-8 can encode: in range and not a surrogate.\<close>

definition scalar_value :: "nat \<Rightarrow> bool" where
  "scalar_value c \<longleftrightarrow> c < 0x110000 \<and> \<not> (0xD800 \<le> c \<and> c \<le> 0xDFFF)"

text \<open>A negative numeric input of a filter: a negative integer or a negative float.\<close>

definition negative_number :: "pyval \<Rightarrow> bool" where
  "negative_number v =
     (case v of
        PInt n \<Rightarrow> n < 0
      | PFloat (Finite m e r) \<Rightarrow> m < 0
      | PFloat NegInf \<Rightarrow> True
      | _ \<Rightarrow> False)"

text \<open>
  Sample standard outputs: \<open>quiet\<close> accepts every line (a stream whose encoding covers
  the text, or one that replaces what it cannot encode); \<open>ascii_stdout\<close> is a stream
  with a strict ASCII or cp1252 encoding, which raises on every line of this program,
  since each one starts with a symbol outside those encodings.

  Sample networks: one where every request raises the given exception, one where every
  request is answered with the given response, and one whose first request times out
  and whose later requests are answered with an empty \<open>data\<close> list.
\<close>

definition quiet :: stdout where
  "quiet m = None"

definition ascii_stdout :: stdout where
  "ascii_stdout m = Some UnicodeEncodeError"

definition init :: "unit state" where
  "init = \<lparr>world = (), gateway_calls = [], http_gets = []\<rparr>"

definition failing :: "py_exception \<Rightarrow> unit http" where
  "failing e url w = (GetRaises e, w)"

definition serving :: "response \<Rightarrow> unit http" where
  "serving r url w = (GetReturns r, w)"

definition flaky :: "nat http" where
  "flaky url n =
     (if n = 0 then (GetRaises Timeout, Suc n)
      else (GetReturns \<lparr>status_code = 200,
              json_result = Inr (JDict [(ustr ''data'', JList [])])\<rparr>, Suc n))"

section \<open>Properties of the template filters\<close>

lemma dec_digit: "n < 10 \<Longrightarrow> dec n = [48 + n]"
  by (simp add: dec.simps)

lemma dec_two_digits: "10 \<le> n \<Longrightarrow> n < 100 \<Longrightarrow> dec n = [48 + n div 10, 48 + n mod 10]"
  by (subst dec.simps) (simp add: dec_digit)

lemma dec_step: "10 \<le> n \<Longrightarrow> dec n = dec (n div 10) @ [48 + n mod 10]"
  by (subst dec.simps) simp

lemma length_dec_pos: "0 < length (dec n)"
  by (subst dec.simps) simp

text \<open>A number from \<open>10 ^ k\<close> on has more than \<open>k\<close> digits.\<close>

lemma length_dec_lower: "10 ^ k \<le> n \<Longrightarrow> k < length (dec n)"
proof (induction k arbitrary: n)
  case 0
  show ?case by (rule length_dec_pos)
next
  case (Suc k)
  from Suc.prems have p: "10 * 10 ^ k \<le> n" by simp
  then have d: "10 ^ k \<le> n div 10" by simp
  have "(10::nat) * 1 \<le> 10 * 10 ^ k" by (intro mult_le_mono2) simp
  with p have "10 \<le> n" by linarith
  then have "dec n = dec (n div 10) @ [48 + n mod 10]" by (rule dec_step)
  with Suc.IH [OF d] show ?case by simp
qed

lemma int_digits_small: "\<bar>n\<bar> < 100 \<Longrightarrow> int_digits n = Inr (dec (nat \<bar>n\<bar>))"
proof -
  assume a: "\<bar>n\<bar> < 100"
  have "length (dec (nat \<bar>n\<bar>)) \<le> 2"
  proof (cases "nat \<bar>n\<bar> < 10")
    case True
    then show ?thesis by (simp add: dec_digit)
  next
    case False
    with a have "10 \<le> nat \<bar>n\<bar>" "nat \<bar>n\<bar> < 100" by simp_all
    then show ?thesis by (simp add: dec_two_digits)
  qed
  then show ?thesis by (simp add: int_digits_def int_max_str_digits_def)
qed

lemma format_02d_seconds:
  assumes "0 \<le> k" and "k < 60"
  shows "format_02d k = Inr [48 + nat k div 10, 48 + nat k mod 10]"
proof -
  from assms have d: "int_digits k = Inr (dec (nat \<bar>k\<bar>))" by (intro int_digits_small) simp
  from assms(1) have n: "nat \<bar>k\<bar> = nat k" by simp
  show ?thesis
  proof (cases "nat k < 10")
    case True
    with assms d n show ?thesis by (simp add: format_02d_def dec_digit)
  next
    case False
    with assms have "10 \<le> nat k" "nat k < 100" by simp_all
    with assms d n show ?thesis by (simp add: format_02d_def dec_two_digits)
  qed
qed

lemma format_number_None: "format_number PNone = Inr (ustr ''0'')"
  by (simp add: format_number_def)

lemma format_duration_None: "format_duration PNone = Inr (ustr ''0:00'')"
  by (simp add: format_duration_def)

lemma format_duration_125: "format_duration (PInt 125) = Inr (ustr ''2:05'')"
  by code_simp

lemma format_number_1234567: "format_number (PInt 1234567) = Inr (ustr ''1,234,567'')"
  by (simp add: format_number_def format_comma_def int_digits_def int_max_str_digits_def
      dec.simps ustr_def)

text \<open>
  An input that is not a number: \<open>int()\<close> raises \<open>ValueError\<close> or \<open>TypeError\<close>, and the
  filters fall back to the input's string form and to \<open>0:00\<close>.
\<close>

lemma py_str_of_non_number:
  "v \<noteq> PNone \<Longrightarrow> py_int v = Inl e \<Longrightarrow> \<exists>t. py_str v = Inr t"
  by (cases v) simp_all

lemma format_number_fallback:
  "v \<noteq> PNone \<Longrightarrow> py_int v = Inl e \<Longrightarrow> is_ValueError e \<or> is_TypeError e \<Longrightarrow>
   format_number v = py_str v"
  by (simp add: format_number_def)

lemma format_duration_fallback:
  "py_int v = Inl e \<Longrightarrow> is_ValueError e \<or> is_TypeError e \<Longrightarrow>
   format_duration v = Inr (ustr ''0:00'')"
  by (simp add: format_duration_def)

lemma format_number_text: "format_number (PStr (ustr ''abc'')) = Inr (ustr ''abc'')"
  by code_simp

lemma format_duration_text: "format_duration (PStr (ustr ''abc'')) = Inr (ustr ''0:00'')"
  by code_simp

text \<open>
  \<open>int()\<close> raises \<open>ValueError\<close>, \<open>TypeError\<close>, or, on an infinite float only,
  \<open>OverflowError\<close>. So \<open>format_duration\<close> raises on the two infinities and nowhere else;
  \<open>format_number\<close> raises there and on an integer of more digits than the limit, where
  \<open>str(value)\<close> raises inside the \<open>except\<close> clause.
\<close>

lemma py_int_raises:
  "py_int v = Inl e \<Longrightarrow>
   e = ValueError \<or> e = TypeError \<or>
   (e = OverflowError \<and> (v = PFloat PosInf \<or> v = PFloat NegInf))"
  by (cases v) (auto simp: float_int_def str_int_def split: pyfloat.splits option.splits)

lemma int_digits_raises: "int_digits n = Inl e \<Longrightarrow> e = ValueError"
  by (simp add: int_digits_def split: if_splits)

lemma int_str_raises: "int_str n = Inl e \<Longrightarrow> e = ValueError"
  by (auto simp: int_str_def split: sum.splits dest: int_digits_raises)

lemma format_comma_raises: "format_comma n = Inl e \<Longrightarrow> e = ValueError"
  by (auto simp: format_comma_def split: sum.splits dest: int_digits_raises)

lemma format_02d_raises: "format_02d n = Inl e \<Longrightarrow> e = ValueError"
  by (auto simp: format_02d_def split: sum.splits dest: int_digits_raises)

lemma py_str_raises:
  "py_str v = Inl e \<Longrightarrow>
   e = ValueError \<and> (\<exists>n. v = PInt n \<and> int_max_str_digits < length (dec (nat \<bar>n\<bar>)))"
  by (cases v) (auto simp: int_str_def int_digits_def split: sum.splits if_splits)

lemma format_number_raises_only:
  assumes "format_number v = Inl e"
  shows "(e = OverflowError \<and> (v = PFloat PosInf \<or> v = PFloat NegInf)) \<or>
         (e = ValueError \<and> (\<exists>n. v = PInt n \<and> int_max_str_digits < length (dec (nat \<bar>n\<bar>))))"
proof (cases "py_int v")
  case (Inl x)
  with assms py_int_raises [OF Inl] py_str_raises [of v e] show ?thesis
    by (auto simp: format_number_def is_ValueError_def is_TypeError_def split: if_splits)
next
  case (Inr n)
  show ?thesis
  proof (cases "format_comma n")
    case (Inl x)
    then have "x = ValueError" by (rule format_comma_raises)
    with assms Inr Inl py_str_raises [of v e] show ?thesis
      by (auto simp: format_number_def is_ValueError_def split: if_splits)
  next
    case r: (Inr t)
    with assms Inr show ?thesis by (auto simp: format_number_def split: if_splits)
  qed
qed

lemma format_duration_raises_only:
  assumes "format_duration v = Inl e"
  shows "e = OverflowError \<and> (v = PFloat PosInf \<or> v = PFloat NegInf)"
proof (cases "py_int v")
  case (Inl x)
  with assms py_int_raises [OF Inl] show ?thesis
    by (auto simp: format_duration_def is_ValueError_def is_TypeError_def split: if_splits)
next
  case (Inr n)
  with assms show ?thesis
    by (auto simp: format_duration_def Let_def is_ValueError_def
        split: if_splits sum.splits dest: int_str_raises format_02d_raises)
qed

lemma format_number_over_limit:
  "int_max_str_digits < length (dec (nat \<bar>n\<bar>)) \<Longrightarrow> format_number (PInt n) = Inl ValueError"
  by (simp add: format_number_def format_comma_def int_str_def int_digits_def is_ValueError_def)

text \<open>
  C8. The filters are claimed to be total and never to raise. On \<open>None\<close>, on \<open>125\<close> and
  on text that is not a number they behave as claimed (lemmas above), but on a float
  infinity \<open>int()\<close> raises \<open>OverflowError\<close>, which \<open>except (ValueError, TypeError)\<close>
  does not catch: both filters raise.
\<close>

theorem format_filters_raise_on_infinity:
  "format_number (PFloat PosInf) = Inl OverflowError \<and>
   format_duration (PFloat PosInf) = Inl OverflowError"
  by (simp add: format_number_def format_duration_def float_int_def is_ValueError_def
      is_TypeError_def)

lemma format_duration_over_limit:
  assumes "py_int v = Inr n" and "int_max_str_digits < length (dec (nat \<bar>n div 60\<bar>))"
  shows "format_duration v = Inr (ustr ''0:00'')"
proof -
  from assms(1) have "v \<noteq> PNone" by auto
  with assms show ?thesis
    by (simp add: format_duration_def Let_def int_str_def int_digits_def is_ValueError_def)
qed

lemma format_duration_huge:
  "format_duration (PInt (- (60 * 10 ^ 4300))) = Inr (ustr ''0:00'')"
proof -
  define a :: nat where "a = 10 ^ 4300"
  have "10 ^ 4300 \<le> a" by (simp only: a_def order_refl)
  then have l: "4300 < length (dec a)" by (rule length_dec_lower)
  have i: "(10::int) ^ 4300 = int a" by (simp only: a_def of_nat_power of_nat_numeral)
  have d: "(- (60 * int a)) div 60 = - int a" by simp
  have "format_duration (PInt (- (60 * int a))) = Inr (ustr ''0:00'')"
  proof (rule format_duration_over_limit)
    show "py_int (PInt (- (60 * int a))) = Inr (- (60 * int a))" by simp
    from l show "int_max_str_digits < length (dec (nat \<bar>(- (60 * int a)) div 60\<bar>))"
      by (simp only: d int_max_str_digits_def abs_minus_cancel abs_of_nat nat_int)
  qed
  then show ?thesis by (simp only: i)
qed

text \<open>
  C10, as stated, fails for a negative float strictly between \<open>-1\<close> and \<open>0\<close>: \<open>int()\<close>
  truncates \<open>-0.5\<close> to \<open>0\<close>, the minutes are not negative and the result is \<open>0:00\<close>.
  It fails also for a negative integer whose minutes need more digits than the limit on
  the conversion to text: the conversion raises \<open>ValueError\<close> and the result is \<open>0:00\<close>.
\<close>

theorem format_duration_negative_counterexample:
  "negative_number (PFloat (Finite (- 1) (- 1) (ustr ''-0.5''))) \<and>
   py_int (PFloat (Finite (- 1) (- 1) (ustr ''-0.5''))) = Inr 0 \<and>
   format_duration (PFloat (Finite (- 1) (- 1) (ustr ''-0.5''))) = Inr (ustr ''0:00'') \<and>
   negative_number (PInt (- (60 * 10 ^ 4300))) \<and>
   format_duration (PInt (- (60 * 10 ^ 4300))) = Inr (ustr ''0:00'')"
proof -
  have 1: "negative_number (PFloat (Finite (- 1) (- 1) (ustr ''-0.5'')))"
    by (simp add: negative_number_def)
  have 2: "py_int (PFloat (Finite (- 1) (- 1) (ustr ''-0.5''))) = Inr 0"
    by (simp add: float_int_def)
  have 3: "format_duration (PFloat (Finite (- 1) (- 1) (ustr ''-0.5''))) = Inr (ustr ''0:00'')"
    by code_simp
  have "(0::int) < 60 * 10 ^ 4300" by (intro mult_pos_pos zero_less_power) simp_all
  then have 4: "negative_number (PInt (- (60 * 10 ^ 4300)))"
    by (simp only: negative_number_def pyval.case neg_less_0_iff_less)
  from 1 2 3 4 format_duration_huge show ?thesis by (intro conjI)
qed

text \<open>
  C10, amended. For every input whose integer conversion \<open>n = int(value)\<close> is negative
  (every negative integer, every float at most \<open>-1\<close>), the minutes \<open>n // 60\<close> are negative
  and the seconds \<open>n % 60\<close> are between 0 and 59. When the minutes have at most 4300
  digits, the limit on the conversion to text, \<open>format_duration\<close> does not clamp: the
  result is the minutes with their sign, a colon and the seconds in two digits, and it
  is not \<open>0:00\<close>. Beyond that limit the result is \<open>0:00\<close>.
\<close>

theorem format_duration_negative:
  assumes "py_int v = Inr n" and "n < 0"
  shows "n div 60 < 0 \<and> 0 \<le> n mod 60 \<and> n mod 60 < 60 \<and>
         (length (dec (nat (- (n div 60)))) \<le> int_max_str_digits \<longrightarrow>
            format_duration v =
              Inr (45 # dec (nat (- (n div 60))) @ ustr '':'' @
                   [48 + nat (n mod 60) div 10, 48 + nat (n mod 60) mod 10]) \<and>
            format_duration v \<noteq> Inr (ustr ''0:00'')) \<and>
         (int_max_str_digits < length (dec (nat (- (n div 60)))) \<longrightarrow>
            format_duration v = Inr (ustr ''0:00''))"
proof -
  from assms(1) have nn: "v \<noteq> PNone" by auto
  from assms(2) have neg: "n div 60 < 0" by (simp add: div_neg_pos_less0 neg_imp_zdiv_neg_iff)
  then have ab: "\<bar>n div 60\<bar> = - (n div 60)" by simp
  have m: "0 \<le> n mod 60" "n mod 60 < 60" by simp_all
  have sec: "format_02d (n mod 60) = Inr [48 + nat (n mod 60) div 10, 48 + nat (n mod 60) mod 10]"
    using m by (rule format_02d_seconds)
  have small: "length (dec (nat (- (n div 60)))) \<le> int_max_str_digits \<Longrightarrow>
      format_duration v =
        Inr (45 # dec (nat (- (n div 60))) @ ustr '':'' @
             [48 + nat (n mod 60) div 10, 48 + nat (n mod 60) mod 10])"
    using assms(1) nn neg sec
    by (simp add: format_duration_def Let_def int_str_def int_digits_def ab)
  have big: "int_max_str_digits < length (dec (nat (- (n div 60)))) \<Longrightarrow>
      format_duration v = Inr (ustr ''0:00'')"
    using format_duration_over_limit [OF assms(1)] ab by simp
  have ne: "Inr (45 # dec (nat (- (n div 60))) @ ustr '':'' @
             [48 + nat (n mod 60) div 10, 48 + nat (n mod 60) mod 10]) \<noteq>
           (Inr (ustr ''0:00'') :: py_exception + pystr)"
    by (simp add: ustr_def)
  from neg m small big ne show ?thesis by auto
qed

theorem format_duration_negative_witness:
  "py_int (PInt (- 1)) = Inr (- 1) \<and> (- 1 :: int) < 0 \<and>
   length (dec (nat (- ((- 1) div 60)))) \<le> int_max_str_digits \<and>
   format_duration (PInt (- 1)) = Inr (ustr ''-1:59'')"
proof -
  have l: "length (dec (nat (- ((- 1 :: int) div 60)))) \<le> int_max_str_digits"
    by (simp add: dec_digit int_max_str_digits_def)
  have e: "45 # dec (nat (- ((- 1 :: int) div 60))) @ ustr '':'' @
      [48 + nat ((- 1) mod 60) div 10, 48 + nat ((- 1) mod 60) mod 10] = ustr ''-1:59''"
    by (simp add: dec_digit ustr_def)
  show ?thesis using format_duration_negative [of "PInt (- 1)" "- 1"] l e by simp
qed

section \<open>Properties of the Gateway\<close>

subsection \<open>The URL\<close>

lemma strip_core:
  assumes "list_all isspace ws1" "list_all isspace ws2" "trimmed u"
  shows "strip (ws1 @ u @ ws2) = u"
proof (cases "u = []")
  case True
  with assms(1,2) show ?thesis
    by (auto simp: strip_def list_all_iff dest: set_dropWhileD)
next
  case False
  with assms(3) have h: "\<not> isspace (hd u)" and l: "\<not> isspace (last u)"
    by (simp_all add: trimmed_def)
  from False obtain x xs where u: "u = x # xs" by (cases u) auto
  from assms(1) have "dropWhile isspace (ws1 @ u @ ws2) = dropWhile isspace (u @ ws2)"
    by (simp add: list_all_iff dropWhile_append2)
  also from h u have "\<dots> = u @ ws2" by simp
  finally have a: "dropWhile isspace (ws1 @ u @ ws2) = u @ ws2" .
  from False obtain y ys where r: "rev u = y # ys" by (cases "rev u") auto
  with False have "y = last u" by (metis last_rev list.sel(1) rev_rev_ident hd_rev)
  with l have ny: "\<not> isspace y" by simp
  from assms(2) have "\<And>c. c \<in> set (rev ws2) \<Longrightarrow> isspace c"
    by (simp add: list_all_iff)
  then have "dropWhile isspace (rev ws2 @ rev u) = dropWhile isspace (rev u)"
    by (rule dropWhile_append2)
  also from r ny have "\<dots> = rev u" by simp
  finally show ?thesis using a by (simp add: strip_def)
qed

lemma not_isspace_slash: "\<not> isspace 47"
  by (simp add: isspace_def)

lemma dropWhile_replicate_slash:
  "n = [] \<or> hd n \<noteq> 47 \<Longrightarrow> dropWhile (\<lambda>c. c = 47) (replicate k (47::nat) @ n) = n"
  by (induction k) (cases n; simp)+

lemma lstrip_slashes:
  "no_leading_separator n \<Longrightarrow> lstrip (ustr ''/'') (replicate k 47 @ n) = n"
  by (simp add: lstrip_def ustr_def dropWhile_replicate_slash no_leading_separator_def)

text \<open>For whitespace, then separators, then a rest, then whitespace: the URL ends in the rest.\<close>

lemma request_url_decomposed:
  assumes "list_all isspace ws1" "list_all isspace ws2"
    and "trimmed (replicate k 47 @ n)" "no_leading_separator n"
  shows "request_url (ws1 @ replicate k 47 @ n @ ws2) = DEEZER_BASE_URL @ ustr ''/'' @ n"
proof -
  from assms(1,2,3) have "strip (ws1 @ (replicate k 47 @ n) @ ws2) = replicate k 47 @ n"
    by (rule strip_core)
  with assms(4) show ?thesis by (simp add: request_url_def lstrip_slashes)
qed

text \<open>Every endpoint is of that form.\<close>

lemma takeWhile_slashes: "takeWhile (\<lambda>c. c = a) u = replicate (length (takeWhile (\<lambda>c. c = a) u)) a"
proof -
  have "\<forall>y\<in>set (takeWhile (\<lambda>c. c = a) u). y = a" by (auto dest: set_takeWhileD)
  then show ?thesis by (simp add: replicate_length_same)
qed

lemma endpoint_decomposition:
  "\<exists>ws1 k n ws2. e = ws1 @ replicate k 47 @ n @ ws2 \<and> list_all isspace ws1 \<and>
     list_all isspace ws2 \<and> trimmed (replicate k 47 @ n) \<and> no_leading_separator n"
proof -
  define ws1 where "ws1 = takeWhile isspace e"
  define r where "r = dropWhile isspace e"
  define ws2 where "ws2 = rev (takeWhile isspace (rev r))"
  define u where "u = rev (dropWhile isspace (rev r))"
  define k where "k = length (takeWhile (\<lambda>c. c = 47) u)"
  define n where "n = dropWhile (\<lambda>c. c = 47) u"
  have e: "e = ws1 @ r" by (simp add: ws1_def r_def)
  have "u @ ws2 = rev (takeWhile isspace (rev r) @ dropWhile isspace (rev r))"
    by (simp only: u_def ws2_def rev_append)
  also have "\<dots> = rev (rev r)" by (simp only: takeWhile_dropWhile_id)
  finally have r: "r = u @ ws2" by simp
  have "u = takeWhile (\<lambda>c. c = 47) u @ dropWhile (\<lambda>c. c = 47) u" by simp
  then have u: "u = replicate k 47 @ n"
    using takeWhile_slashes [of 47 u] by (simp add: k_def n_def)
  have w1: "list_all isspace ws1" by (auto simp: ws1_def list_all_iff dest: set_takeWhileD)
  have w2: "list_all isspace ws2" by (auto simp: ws2_def list_all_iff dest: set_takeWhileD)
  have t: "trimmed u"
  proof (cases "u = []")
    case True
    then show ?thesis by (simp add: trimmed_def)
  next
    case False
    then have d: "dropWhile isspace (rev r) \<noteq> []" by (simp add: u_def)
    then have "\<not> isspace (hd (dropWhile isspace (rev r)))" by (rule hd_dropWhile)
    with d have l: "\<not> isspace (last u)" by (simp add: u_def last_rev)
    from False r have rn: "r \<noteq> []" by auto
    then have "\<not> isspace (hd r)" unfolding r_def by (rule hd_dropWhile)
    with False r have h: "\<not> isspace (hd u)" by (metis hd_append2)
    from l h show ?thesis by (simp add: trimmed_def)
  qed
  have s: "no_leading_separator n"
  proof (cases "n = []")
    case True
    then show ?thesis by (simp add: no_leading_separator_def)
  next
    case False
    then have "\<not> hd n = 47" unfolding n_def by (rule hd_dropWhile)
    then show ?thesis by (simp add: no_leading_separator_def)
  qed
  from e r u have "e = ws1 @ replicate k 47 @ n @ ws2" by simp
  with w1 w2 t s u show ?thesis by blast
qed

lemma normalised_parts:
  "normalised t \<Longrightarrow> trimmed (replicate k 47 @ t) \<and> no_leading_separator t"
proof -
  assume a: "normalised t"
  show ?thesis
  proof (cases "t = []")
    case True
    then show ?thesis
      by (cases k) (simp_all add: trimmed_def no_leading_separator_def not_isspace_slash)
  next
    case False
    with a show ?thesis
      by (cases k)
        (simp_all add: normalised_def trimmed_def no_leading_separator_def not_isspace_slash
          hd_append)
  qed
qed

lemma request_url_normalised: "normalised t \<Longrightarrow> request_url t = DEEZER_BASE_URL @ ustr ''/'' @ t"
  using request_url_decomposed [of "[]" "[]" 0 t] normalised_parts [of t 0] by simp

lemma request_url_slash_space:
  "request_url (ustr ''/ a'') = ustr ''https://api.deezer.com/ a''"
  by (simp add: request_url_def strip_def lstrip_def ustr_def DEEZER_BASE_URL_def isspace_def)

subsection \<open>The state after a call\<close>

lemma gateway_calls_make_api_request:
  "gateway_calls (snd (make_api_request out g e s)) = gateway_calls s @ [e]"
  by (simp add: make_api_request_def Let_def split: option.splits prod.splits get_result.splits
      sum.splits)

lemma http_gets_make_api_request:
  "http_gets (snd (make_api_request out g e s)) =
     (if out (MakingRequest (request_url e)) = None then http_gets s @ [request_url e]
      else http_gets s)"
  by (simp add: make_api_request_def Let_def split: option.splits prod.splits get_result.splits
      sum.splits)

lemma make_api_request_depends_on_url:
  "request_url e = request_url e' \<Longrightarrow>
   fst (make_api_request out g e s) = fst (make_api_request out g e' s) \<and>
   world (snd (make_api_request out g e s)) = world (snd (make_api_request out g e' s)) \<and>
   http_gets (snd (make_api_request out g e s)) = http_gets (snd (make_api_request out g e' s))"
  by (simp add: make_api_request_def Let_def split: option.splits prod.splits get_result.splits
      sum.splits)

subsection \<open>The value of a call\<close>

lemma print_then_quiet: "print_then quiet m rest = rest"
  by (simp add: print_then_def quiet_def)

lemma print_then_accepts: "out m = None \<Longrightarrow> print_then out m rest = rest"
  by (simp add: print_then_def)

lemma print_then_Inr: "print_then out m rest = Inr v \<Longrightarrow> rest = Inr v"
  by (simp add: print_then_def split: option.splits)

lemma print_then_Inl: "print_then out m rest = Inl x \<Longrightarrow> out m = Some x \<or> rest = Inl x"
  by (simp add: print_then_def split: option.splits)

lemma make_api_request_except_quiet: "make_api_request_except quiet r e = Inr JNull"
  by (simp add: make_api_request_except_def print_then_quiet)

lemma make_api_request_except_Inr: "make_api_request_except out r e = Inr v \<Longrightarrow> v = JNull"
  by (auto simp: make_api_request_except_def split: if_splits dest!: print_then_Inr)

lemma make_api_request_except_Inl: "make_api_request_except out r e = Inl x \<Longrightarrow> \<exists>m. out m = Some x"
  by (auto simp: make_api_request_except_def split: if_splits dest!: print_then_Inl)

lemma make_api_request_try_quiet:
  "make_api_request_try quiet response =
     (if status_code response \<noteq> 200 then Inr JNull
      else (case json_result response of
              Inl e \<Rightarrow> Inl e
            | Inr data \<Rightarrow> if dict_has_key data (ustr ''error'') then Inr JNull else Inr data))"
  by (simp add: make_api_request_try_def print_then_quiet split: sum.splits)

lemma make_api_request_try_Inr:
  "make_api_request_try out response = Inr v \<Longrightarrow>
   v = JNull \<or> (status_code response = 200 \<and> json_result response = Inr v \<and>
     \<not> dict_has_key v (ustr ''error''))"
  by (auto simp: make_api_request_try_def split: if_splits sum.splits dest!: print_then_Inr)

text \<open>With a standard output that accepts every line the function is the plain one.\<close>

lemma make_api_request_quiet:
  "make_api_request quiet g e s =
     (let (got, w) = g (request_url e) (world s)
      in ((case got of
             GetRaises x \<Rightarrow> Inr JNull
           | GetReturns response \<Rightarrow>
               if status_code response \<noteq> 200 then Inr JNull
               else (case json_result response of
                       Inl x \<Rightarrow> Inr JNull
                     | Inr data \<Rightarrow>
                         if dict_has_key data (ustr ''error'') then Inr JNull else Inr data)),
          s\<lparr>world := w, gateway_calls := gateway_calls s @ [e],
            http_gets := http_gets s @ [request_url e]\<rparr>))"
  by (simp add: make_api_request_def Let_def make_api_request_try_quiet
      make_api_request_except_quiet quiet_def split: prod.splits get_result.splits sum.splits)

lemma make_api_request_quiet_split:
  "\<exists>v. make_api_request quiet g e s =
     (Inr v, s\<lparr>world := snd (g (request_url e) (world s)),
               gateway_calls := gateway_calls s @ [e],
               http_gets := http_gets s @ [request_url e]\<rparr>)"
  by (simp add: make_api_request_quiet Let_def split: prod.splits get_result.splits sum.splits)

lemma make_api_request_quiet_transport_raises:
  "g (request_url e) (world s) = (GetRaises x, w) \<Longrightarrow>
   fst (make_api_request quiet g e s) = Inr JNull"
  by (simp add: make_api_request_quiet)

lemma make_api_request_quiet_decode_raises:
  "g (request_url e) (world s) = (GetReturns resp, w) \<Longrightarrow> json_result resp = Inl x \<Longrightarrow>
   fst (make_api_request quiet g e s) = Inr JNull"
  by (simp add: make_api_request_quiet)

lemma make_api_request_quiet_not_200:
  "g (request_url e) (world s) = (GetReturns resp, w) \<Longrightarrow> status_code resp \<noteq> 200 \<Longrightarrow>
   fst (make_api_request quiet g e s) = Inr JNull"
  by (simp add: make_api_request_quiet)

lemma make_api_request_quiet_200:
  "g (request_url e) (world s) = (GetReturns resp, w) \<Longrightarrow> status_code resp = 200 \<Longrightarrow>
   json_result resp = Inr data \<Longrightarrow>
   fst (make_api_request quiet g e s) =
     Inr (if dict_has_key data (ustr ''error'') then JNull else data)"
  by (simp add: make_api_request_quiet)

text \<open>
  With any standard output: a value that is returned is \<open>None\<close> or the decoded body of
  a response with status 200 that has no top-level \<open>error\<close> key.
\<close>

lemma make_api_request_Inr:
  assumes "fst (make_api_request out g e s) = Inr v"
  shows "v = JNull \<or>
    (\<exists>resp w. g (request_url e) (world s) = (GetReturns resp, w) \<and> status_code resp = 200 \<and>
       json_result resp = Inr v \<and> \<not> dict_has_key v (ustr ''error''))"
proof (cases "out (MakingRequest (request_url e))")
  case (Some x)
  with assms show ?thesis
    by (auto simp: make_api_request_def Let_def dest: make_api_request_except_Inr)
next
  case None
  obtain got w where g: "g (request_url e) (world s) = (got, w)" by (cases "g (request_url e) (world s)")
  show ?thesis
  proof (cases got)
    case (GetRaises x)
    with assms None g show ?thesis
      by (auto simp: make_api_request_def Let_def dest: make_api_request_except_Inr)
  next
    case (GetReturns resp)
    show ?thesis
    proof (cases "make_api_request_try out resp")
      case (Inl x)
      with assms None g GetReturns show ?thesis
        by (auto simp: make_api_request_def Let_def dest: make_api_request_except_Inr)
    next
      case (Inr v')
      with assms None g GetReturns have "v' = v" by (simp add: make_api_request_def Let_def)
      with Inr g GetReturns make_api_request_try_Inr [of out resp v] show ?thesis by auto
    qed
  qed
qed

text \<open>
  With the standard output accepting every line no exception leaves the function, and
  with any standard output an exception that leaves it was raised by a \<open>print\<close>.
\<close>

lemma make_api_request_quiet_returns: "\<exists>v. fst (make_api_request quiet g e s) = Inr v"
  using make_api_request_quiet_split [of g e s] by auto

lemma make_api_request_Inl:
  assumes "fst (make_api_request out g e s) = Inl x"
  shows "\<exists>m. out m = Some x"
proof -
  from assms obtain r y where "make_api_request_except out r y = Inl x"
    by (auto simp: make_api_request_def Let_def
        split: option.splits prod.splits get_result.splits sum.splits)
  then show ?thesis by (rule make_api_request_except_Inl)
qed

text \<open>
  C1, as stated, fails on an endpoint with two leading separators: \<open>lstrip('/')\<close> removes
  both, where stripping one would leave \<open>//a\<close> after the base address.
\<close>

theorem gateway_strips_all_separators_counterexample:
  "http_gets (snd (make_api_request quiet (failing Timeout) (ustr ''//a'') init)) =
     [ustr ''https://api.deezer.com/a''] \<and>
   DEEZER_BASE_URL @ ustr ''/'' @ strip_one_separator (strip (ustr ''//a'')) =
     ustr ''https://api.deezer.com//a'' \<and>
   request_url (ustr ''//a'') \<noteq>
     DEEZER_BASE_URL @ ustr ''/'' @ strip_one_separator (strip (ustr ''//a''))"
  by (simp add: http_gets_make_api_request request_url_def strip_def lstrip_def ustr_def
      DEEZER_BASE_URL_def init_def isspace_def strip_one_separator_def quiet_def)

text \<open>
  C1, amended. Every endpoint string is whitespace, then a number \<open>k\<close> of separators,
  then a rest \<open>n\<close> that does not begin with a separator, then whitespace, where the
  separators and the rest together neither begin nor end with whitespace. For every
  such reading of the endpoint the Gateway forms the URL of the base address, \<open>/\<close> and
  \<open>n\<close>: it trims the surrounding whitespace and strips every leading separator. That URL
  is the one it requests, once, unless the \<open>print\<close> before the request raises. When
  \<open>n\<close> is itself trimmed, the request and its result are those for \<open>n\<close> alone.
\<close>

theorem gateway_url_normalised:
  "(\<exists>ws1 k n ws2. e = ws1 @ replicate k 47 @ n @ ws2 \<and> list_all isspace ws1 \<and>
      list_all isspace ws2 \<and> trimmed (replicate k 47 @ n) \<and> no_leading_separator n) \<and>
   (\<forall>ws1 k n ws2.
      e = ws1 @ replicate k 47 @ n @ ws2 \<and> list_all isspace ws1 \<and> list_all isspace ws2 \<and>
      trimmed (replicate k 47 @ n) \<and> no_leading_separator n \<longrightarrow>
      request_url e = DEEZER_BASE_URL @ ustr ''/'' @ n \<and>
      http_gets (snd (make_api_request out g e s)) =
        (if out (MakingRequest (DEEZER_BASE_URL @ ustr ''/'' @ n)) = None
         then http_gets s @ [DEEZER_BASE_URL @ ustr ''/'' @ n] else http_gets s) \<and>
      (normalised n \<longrightarrow>
         fst (make_api_request out g e s) = fst (make_api_request out g n s) \<and>
         world (snd (make_api_request out g e s)) = world (snd (make_api_request out g n s)) \<and>
         http_gets (snd (make_api_request out g e s)) =
           http_gets (snd (make_api_request out g n s))))"
proof (intro conjI allI impI)
  show "\<exists>ws1 k n ws2. e = ws1 @ replicate k 47 @ n @ ws2 \<and> list_all isspace ws1 \<and>
      list_all isspace ws2 \<and> trimmed (replicate k 47 @ n) \<and> no_leading_separator n"
    by (rule endpoint_decomposition)
next
  fix ws1 k n ws2
  assume a: "e = ws1 @ replicate k 47 @ n @ ws2 \<and> list_all isspace ws1 \<and>
    list_all isspace ws2 \<and> trimmed (replicate k 47 @ n) \<and> no_leading_separator n"
  then have u: "request_url e = DEEZER_BASE_URL @ ustr ''/'' @ n"
    using request_url_decomposed [of ws1 ws2 k n] by simp
  show "request_url e = DEEZER_BASE_URL @ ustr ''/'' @ n" by (rule u)
  show "http_gets (snd (make_api_request out g e s)) =
        (if out (MakingRequest (DEEZER_BASE_URL @ ustr ''/'' @ n)) = None
         then http_gets s @ [DEEZER_BASE_URL @ ustr ''/'' @ n] else http_gets s)"
    using u by (simp add: http_gets_make_api_request)
  assume "normalised n"
  then have "request_url n = DEEZER_BASE_URL @ ustr ''/'' @ n" by (rule request_url_normalised)
  with u have eq: "request_url e = request_url n" by simp
  from make_api_request_depends_on_url [OF eq, of out g s]
  show "fst (make_api_request out g e s) = fst (make_api_request out g n s)"
    and "world (snd (make_api_request out g e s)) = world (snd (make_api_request out g n s))"
    and "http_gets (snd (make_api_request out g e s)) =
           http_gets (snd (make_api_request out g n s))"
    by simp_all
qed

theorem gateway_url_normalised_witness:
  "list_all isspace [32, 9] \<and> list_all isspace [10] \<and>
   trimmed (replicate 2 47 @ ustr ''chart/0'') \<and> no_leading_separator (ustr ''chart/0'') \<and>
   normalised (ustr ''chart/0'') \<and>
   request_url ([32, 9] @ replicate 2 47 @ ustr ''chart/0'' @ [10]) =
     ustr ''https://api.deezer.com/chart/0'' \<and>
   http_gets (snd (make_api_request quiet (failing Timeout)
       ([32, 9] @ replicate 2 47 @ ustr ''chart/0'' @ [10]) init)) =
     [ustr ''https://api.deezer.com/chart/0''] \<and>
   fst (make_api_request quiet (failing Timeout)
       ([32, 9] @ replicate 2 47 @ ustr ''chart/0'' @ [10]) init) =
     fst (make_api_request quiet (failing Timeout) (ustr ''chart/0'') init) \<and>
   trimmed (replicate 1 47 @ ustr '' a'') \<and> no_leading_separator (ustr '' a'') \<and>
   request_url (ustr ''/ a'') = ustr ''https://api.deezer.com/ a''"
proof -
  have h: "list_all isspace [32, 9]" "list_all isspace [10]"
    "trimmed (replicate 2 47 @ ustr ''chart/0'')" "no_leading_separator (ustr ''chart/0'')"
    "normalised (ustr ''chart/0'')"
    "trimmed (replicate 1 47 @ ustr '' a'')" "no_leading_separator (ustr '' a'')"
    by (simp_all add: isspace_def trimmed_def no_leading_separator_def normalised_def ustr_def)
  have e2: "ustr ''/ a'' = [] @ replicate 1 47 @ ustr '' a'' @ []" by (simp add: ustr_def)
  have b: "DEEZER_BASE_URL @ ustr ''/'' @ ustr ''chart/0'' = ustr ''https://api.deezer.com/chart/0''"
    "DEEZER_BASE_URL @ ustr ''/'' @ ustr '' a'' = ustr ''https://api.deezer.com/ a''"
    by (simp_all add: DEEZER_BASE_URL_def ustr_def)
  let ?e = "[32, 9] @ replicate 2 47 @ ustr ''chart/0'' @ [10]"
  have c1: "?e = [32, 9] @ replicate 2 47 @ ustr ''chart/0'' @ [10] \<and> list_all isspace [32, 9] \<and>
      list_all isspace [10] \<and> trimmed (replicate 2 47 @ ustr ''chart/0'') \<and>
      no_leading_separator (ustr ''chart/0'')"
    using h by simp
  have c2: "ustr ''/ a'' = [] @ replicate 1 47 @ ustr '' a'' @ [] \<and> list_all isspace [] \<and>
      list_all isspace [] \<and> trimmed (replicate 1 47 @ ustr '' a'') \<and>
      no_leading_separator (ustr '' a'')"
    using h e2 by simp
  note t1 = gateway_url_normalised [of ?e quiet "failing Timeout" init, THEN conjunct2,
      rule_format, OF c1]
  note t2 = gateway_url_normalised [of "ustr ''/ a''" quiet "failing Timeout" init,
      THEN conjunct2, rule_format, OF c2]
  from t1 have u1: "request_url ?e = DEEZER_BASE_URL @ ustr ''/'' @ ustr ''chart/0''"
    by (rule conjunct1)
  from t1 have u2: "http_gets (snd (make_api_request quiet (failing Timeout) ?e init)) =
      [DEEZER_BASE_URL @ ustr ''/'' @ ustr ''chart/0'']"
    by (simp add: quiet_def init_def)
  from t1 h(5) have u3: "fst (make_api_request quiet (failing Timeout) ?e init) =
     fst (make_api_request quiet (failing Timeout) (ustr ''chart/0'') init)"
    by blast
  from t2 have u4: "request_url (ustr ''/ a'') = DEEZER_BASE_URL @ ustr ''/'' @ ustr '' a''"
    by (rule conjunct1)
  from h u1 u2 u3 u4 b show ?thesis by simp
qed

text \<open>
  C2. Each \<open>except\<close> clause prints before it returns \<open>None\<close>, and an exception raised
  by that \<open>print\<close> is caught by no clause: it leaves the function. On a standard output
  that cannot encode the symbols of the log lines the first \<open>print\<close> of the \<open>try\<close> block
  raises \<open>UnicodeEncodeError\<close>, the last clause catches it, its own \<open>print\<close> raises again,
  and \<open>make_api_request\<close> raises, whatever the network does. With a standard output that
  accepts every line the claim holds (\<open>make_api_request_quiet_returns\<close>), and only a
  \<open>print\<close> can make the function raise (\<open>make_api_request_Inl\<close>).
\<close>

theorem gateway_raises_when_print_fails:
  "fst (make_api_request ascii_stdout (failing Timeout) (ustr ''chart/0'') init) =
     Inl UnicodeEncodeError \<and>
   fst (make_api_request ascii_stdout
     (serving \<lparr>status_code = 200, json_result = Inr (JDict [(ustr ''id'', JInt 27)])\<rparr>)
     (ustr ''artist/27'') init) = Inl UnicodeEncodeError"
  by (simp add: make_api_request_def Let_def ascii_stdout_def make_api_request_except_def
      print_then_def is_RequestException_def)

text \<open>
  C3. A response whose status code is not 200 gives \<open>None\<close>, whatever its body is and
  whatever the status is: with a standard output that accepts every line, and with any
  standard output that accepts the three lines printed on that path. With any standard
  output at all, no value other than \<open>None\<close> is returned.
\<close>

theorem gateway_non_200_is_absent:
  assumes "g (request_url e) (world s) = (GetReturns resp, w)" and "status_code resp \<noteq> 200"
  shows "fst (make_api_request quiet g e s) = Inr JNull \<and>
         (out (MakingRequest (request_url e)) = None \<and>
          out (ResponseStatus (status_code resp)) = None \<and>
          out (HttpErrorStatus (status_code resp)) = None \<longrightarrow>
            fst (make_api_request out g e s) = Inr JNull) \<and>
         (\<forall>v. fst (make_api_request out g e s) = Inr v \<longrightarrow> v = JNull)"
proof (intro conjI allI impI)
  show "fst (make_api_request quiet g e s) = Inr JNull"
    using assms by (rule make_api_request_quiet_not_200)
next
  assume "out (MakingRequest (request_url e)) = None \<and>
          out (ResponseStatus (status_code resp)) = None \<and>
          out (HttpErrorStatus (status_code resp)) = None"
  with assms show "fst (make_api_request out g e s) = Inr JNull"
    by (simp add: make_api_request_def Let_def make_api_request_try_def print_then_def)
next
  fix v
  assume "fst (make_api_request out g e s) = Inr v"
  from make_api_request_Inr [OF this] assms show "v = JNull" by auto
qed

theorem gateway_non_200_is_absent_witness:
  "serving \<lparr>status_code = 404, json_result = Inr (JDict [(ustr ''id'', JInt 27)])\<rparr>
     (request_url (ustr ''artist/27'')) (world init) =
     (GetReturns \<lparr>status_code = 404, json_result = Inr (JDict [(ustr ''id'', JInt 27)])\<rparr>, ()) \<and>
   status_code \<lparr>status_code = 404, json_result = Inr (JDict [(ustr ''id'', JInt 27)])\<rparr> \<noteq> 200 \<and>
   fst (make_api_request quiet
     (serving \<lparr>status_code = 404, json_result = Inr (JDict [(ustr ''id'', JInt 27)])\<rparr>)
     (ustr ''artist/27'') init) = Inr JNull"
  using gateway_non_200_is_absent
    [of "serving \<lparr>status_code = 404, json_result = Inr (JDict [(ustr ''id'', JInt 27)])\<rparr>"
        "ustr ''artist/27''" init
        "\<lparr>status_code = 404, json_result = Inr (JDict [(ustr ''id'', JInt 27)])\<rparr>" "()"]
  by (simp add: serving_def)

text \<open>
  C4. A decoded body that is a dict with a top-level \<open>error\<close> key gives \<open>None\<close> (with a
  standard output that accepts every line; with any standard output no value other
  than \<open>None\<close> is returned), and the Gateway never returns a dict with a top-level
  \<open>error\<close> key, whatever the standard output and the network are.
\<close>

theorem gateway_hides_error_payload:
  "(\<forall>resp w kvs. g (request_url e) (world s) = (GetReturns resp, w) \<and>
      json_result resp = Inr (JDict kvs) \<and> ustr ''error'' \<in> fst ` set kvs \<longrightarrow>
      fst (make_api_request quiet g e s) = Inr JNull \<and>
      (\<forall>v. fst (make_api_request out g e s) = Inr v \<longrightarrow> v = JNull)) \<and>
   (\<forall>kvs. fst (make_api_request out g e s) = Inr (JDict kvs) \<longrightarrow> ustr ''error'' \<notin> fst ` set kvs)"
proof (intro conjI allI impI)
  fix resp w kvs
  assume a: "g (request_url e) (world s) = (GetReturns resp, w) \<and>
      json_result resp = Inr (JDict kvs) \<and> ustr ''error'' \<in> fst ` set kvs"
  show "fst (make_api_request quiet g e s) = Inr JNull"
  proof (cases "status_code resp = 200")
    case True
    with a show ?thesis by (simp add: make_api_request_quiet_200 dict_has_key_def)
  next
    case False
    with a show ?thesis by (simp add: make_api_request_quiet_not_200)
  qed
  fix v
  assume "fst (make_api_request out g e s) = Inr v"
  from make_api_request_Inr [OF this] a show "v = JNull" by (force simp: dict_has_key_def)
next
  fix kvs
  assume r: "fst (make_api_request out g e s) = Inr (JDict kvs)"
  from make_api_request_Inr [OF r]
  have "\<not> dict_has_key (JDict kvs) (ustr ''error'')" by auto
  then show "ustr ''error'' \<notin> fst ` set kvs" by (simp add: dict_has_key_def)
qed

theorem gateway_hides_error_payload_witness:
  "fst (make_api_request quiet
     (serving \<lparr>status_code = 200, json_result =
        Inr (JDict [(ustr ''error'', JDict [(ustr ''code'', JInt 800)])])\<rparr>)
     (ustr ''track/0'') init) = Inr JNull \<and>
   fst (make_api_request quiet
     (serving \<lparr>status_code = 200, json_result = Inr (JDict [(ustr ''id'', JInt 27)])\<rparr>)
     (ustr ''artist/27'') init) = Inr (JDict [(ustr ''id'', JInt 27)]) \<and>
   ustr ''error'' \<notin> fst ` set [(ustr ''id'', JInt 27)]"
proof -
  let ?bad = "\<lparr>status_code = 200, json_result =
        Inr (JDict [(ustr ''error'', JDict [(ustr ''code'', JInt 800)])])\<rparr>"
  let ?good = "\<lparr>status_code = 200, json_result = Inr (JDict [(ustr ''id'', JInt 27)])\<rparr>"
  have b: "serving ?bad (request_url (ustr ''track/0'')) (world init) = (GetReturns ?bad, ())"
    by (simp add: serving_def)
  have g: "fst (make_api_request quiet (serving ?good) (ustr ''artist/27'') init) =
      Inr (JDict [(ustr ''id'', JInt 27)])"
    by (simp add: make_api_request_quiet Let_def serving_def dict_has_key_def ustr_def)
  from gateway_hides_error_payload [of "serving ?bad" "ustr ''track/0''" init quiet] b
  have 1: "fst (make_api_request quiet (serving ?bad) (ustr ''track/0'') init) = Inr JNull"
    by simp
  from gateway_hides_error_payload [of "serving ?good" "ustr ''artist/27''" init quiet] g
  have 2: "ustr ''error'' \<notin> fst ` set [(ustr ''id'', JInt 27)]"
    by blast
  from 1 g 2 show ?thesis by blast
qed

section \<open>Properties of the route handlers\<close>

lemma snd_search: "snd (search out g args s) = snd (search_try out g args s)"
  by (simp add: search_def split: prod.splits sum.splits)

lemma search_try_empty_query:
  "args_get args (ustr ''q'') [] = [] \<Longrightarrow>
   search_try out g args s =
     ((case out (SearchCalled [] (args_get args (ustr ''type'') (ustr ''track''))) of
         Some e \<Rightarrow> Inl e | None \<Rightarrow> Inr JNull), s)"
  by (simp add: search_try_def Let_def split: option.splits)

text \<open>
  C5. With the query parameter absent or empty, \<open>search\<close> leaves the state as it was
  (no Gateway call, no request), whatever the standard output does, and renders
  \<open>search.html\<close> with no results, the empty query and the search type, \<open>track\<close> when
  absent: with a standard output that accepts every line, and with any standard output
  that accepts the one line printed on that path.
\<close>

theorem search_empty_query_skips_gateway:
  assumes "args_get args (ustr ''q'') [] = []"
  shows "search quiet g args s =
    (Inr (Rendered (ustr ''search.html'')
       [(ustr ''results'', Payload JNull),
        (ustr ''query'', Text []),
        (ustr ''search_type'', Text (args_get args (ustr ''type'') (ustr ''track'')))]), s) \<and>
    snd (search out g args s) = s \<and>
    (out (SearchCalled [] (args_get args (ustr ''type'') (ustr ''track''))) = None \<longrightarrow>
     search out g args s =
      (Inr (Rendered (ustr ''search.html'')
         [(ustr ''results'', Payload JNull),
          (ustr ''query'', Text []),
          (ustr ''search_type'', Text (args_get args (ustr ''type'') (ustr ''track'')))]), s))"
proof (intro conjI impI)
  show "snd (search out g args s) = s"
    using assms by (simp add: snd_search search_try_empty_query)
qed (use assms in \<open>simp_all add: search_def search_try_empty_query quiet_def\<close>)

theorem search_empty_query_skips_gateway_witness:
  "args_get [] (ustr ''q'') [] = [] \<and>
   search quiet (failing Timeout) [] init =
    (Inr (Rendered (ustr ''search.html'')
       [(ustr ''results'', Payload JNull),
        (ustr ''query'', Text []),
        (ustr ''search_type'', Text (ustr ''track''))]), init) \<and>
   args_get [(ustr ''type'', ustr ''album''), (ustr ''q'', [])] (ustr ''q'') [] = [] \<and>
   search quiet (failing Timeout) [(ustr ''type'', ustr ''album''), (ustr ''q'', [])] init =
    (Inr (Rendered (ustr ''search.html'')
       [(ustr ''results'', Payload JNull),
        (ustr ''query'', Text []),
        (ustr ''search_type'', Text (ustr ''album''))]), init)"
  using search_empty_query_skips_gateway [of "[]" "failing Timeout" init quiet]
    search_empty_query_skips_gateway
      [of "[(ustr ''type'', ustr ''album''), (ustr ''q'', [])]" "failing Timeout" init quiet]
  by (simp add: args_get_def ustr_def)

lemma utf8_char_bytes:
  "scalar_value c \<Longrightarrow> \<exists>bs. utf8_char c = Inr bs \<and> (\<forall>b\<in>set bs. b < 256)"
  by (auto simp: utf8_char_def scalar_value_def)

lemma utf8_encode_bytes:
  "\<forall>c\<in>set q. scalar_value c \<Longrightarrow> \<exists>bs. utf8_encode q = Inr bs \<and> (\<forall>b\<in>set bs. b < 256)"
proof (induction q)
  case Nil
  then show ?case by simp
next
  case (Cons c q)
  then obtain rest where r: "utf8_encode q = Inr rest" "\<forall>b\<in>set rest. b < 256" by auto
  from Cons.prems obtain bs where b: "utf8_char c = Inr bs" "\<forall>b\<in>set bs. b < 256"
    using utf8_char_bytes [of c] by auto
  from r b show ?case by auto
qed

lemma hex_digit_safe: "n < 16 \<Longrightarrow> always_safe (hex_digit n)"
  by (simp add: hex_digit_def always_safe_def)

lemma quoter_chars: "b < 256 \<Longrightarrow> c \<in> set (quoter b) \<Longrightarrow> always_safe c \<or> c = 47 \<or> c = 37"
proof -
  assume b: "b < 256" and c: "c \<in> set (quoter b)"
  from b have "b div 16 < 16" "b mod 16 < 16" by simp_all
  then have "always_safe (hex_digit (b div 16))" "always_safe (hex_digit (b mod 16))"
    by (simp_all add: hex_digit_safe)
  with c show ?thesis by (auto simp: quoter_def split: if_splits)
qed

text \<open>
  When the three lines before the Gateway call are printed, the call is made, with the
  endpoint built from the type and the encoded query.
\<close>

lemma search_gateway_call:
  assumes "args_get args (ustr ''q'') [] \<noteq> []"
    and "quote (args_get args (ustr ''q'') []) = Inr enc"
    and "out (SearchCalled (args_get args (ustr ''q'') [])
           (args_get args (ustr ''type'') (ustr ''track''))) = None"
    and "out (SearchingFor (args_get args (ustr ''q'') [])
           (args_get args (ustr ''type'') (ustr ''track''))) = None"
    and "out (ApiUrl (DEEZER_BASE_URL @ ustr ''/'' @ ustr ''search/'' @
           args_get args (ustr ''type'') (ustr ''track'') @ ustr ''?q='' @ enc @
           ustr ''&limit=10'')) = None"
  shows "gateway_calls (snd (search out g args s)) =
     gateway_calls s @ [ustr ''search/'' @ args_get args (ustr ''type'') (ustr ''track'') @
       ustr ''?q='' @ enc @ ustr ''&limit=10'']"
proof -
  let ?ep = "ustr ''search/'' @ args_get args (ustr ''type'') (ustr ''track'') @
       ustr ''?q='' @ enc @ ustr ''&limit=10''"
  have "snd (search_try out g args s) = snd (make_api_request out g ?ep s)"
    using assms
    by (simp add: search_try_def Let_def split: prod.splits sum.splits option.splits)
  then show ?thesis by (simp add: snd_search gateway_calls_make_api_request)
qed

lemma search_gateway_call_quiet:
  assumes "args_get args (ustr ''q'') [] \<noteq> []"
    and "quote (args_get args (ustr ''q'') []) = Inr enc"
  shows "gateway_calls (snd (search quiet g args s)) =
     gateway_calls s @ [ustr ''search/'' @ args_get args (ustr ''type'') (ustr ''track'') @
       ustr ''?q='' @ enc @ ustr ''&limit=10'']"
  using assms by (intro search_gateway_call) (simp_all add: quiet_def)

lemma quote_a_slash_b: "quote (ustr ''a/b'') = Inr (ustr ''a/b'')"
  by (simp add: quote_def ustr_def utf8_char_def quoter_def always_safe_def)

lemma search_abc_default_type:
  "search quiet (failing Timeout) [(ustr ''q'', ustr ''abc'')] init =
    (Inr (Rendered (ustr ''search.html'')
       [(ustr ''results'', Payload JNull),
        (ustr ''query'', Text (ustr ''abc'')),
        (ustr ''search_type'', Text (ustr ''track''))]),
     \<lparr>world = (), gateway_calls = [ustr ''search/track?q=abc&limit=10''],
      http_gets = [ustr ''https://api.deezer.com/search/track?q=abc&limit=10'']\<rparr>)"
  by (simp add: search_def search_try_def Let_def quote_def ustr_def utf8_char_def quoter_def
      always_safe_def make_api_request_quiet request_url_def strip_def lstrip_def isspace_def
      DEEZER_BASE_URL_def failing_def init_def search_diagnostics_def args_get_def quiet_def)

text \<open>
  C6, as stated, fails on a query that contains the reserved character \<open>/\<close>: \<open>quote\<close>
  treats it as safe and the endpoint carries it as it is.
\<close>

theorem search_slash_not_encoded_counterexample:
  "rfc3986_reserved 47 \<and> 47 \<in> set (ustr ''a/b'') \<and>
   quote (ustr ''a/b'') = Inr (ustr ''a/b'') \<and>
   gateway_calls (snd (search quiet (failing Timeout) [(ustr ''q'', ustr ''a/b'')] init)) =
     [ustr ''search/track?q=a/b&limit=10'']"
proof -
  have r: "rfc3986_reserved 47" by (simp add: rfc3986_reserved_def ustr_def)
  have m: "47 \<in> set (ustr ''a/b'')" by (simp add: ustr_def)
  have a: "args_get [(ustr ''q'', ustr ''a/b'')] (ustr ''q'') [] = ustr ''a/b''"
    by (simp add: args_get_def)
  have t: "args_get [(ustr ''q'', ustr ''a/b'')] (ustr ''type'') (ustr ''track'') = ustr ''track''"
    by (simp add: args_get_def ustr_def)
  have n: "ustr ''a/b'' \<noteq> []" by (simp add: ustr_def)
  have "gateway_calls (snd (search quiet (failing Timeout) [(ustr ''q'', ustr ''a/b'')] init)) =
     gateway_calls init @ [ustr ''search/'' @ ustr ''track'' @ ustr ''?q='' @ ustr ''a/b'' @
       ustr ''&limit=10'']"
    using search_gateway_call_quiet
        [of "[(ustr ''q'', ustr ''a/b'')]" "ustr ''a/b''" "failing Timeout" init]
      a t n quote_a_slash_b by simp
  then have g: "gateway_calls (snd (search quiet (failing Timeout)
      [(ustr ''q'', ustr ''a/b'')] init)) = [ustr ''search/track?q=a/b&limit=10'']"
    by (simp add: init_def ustr_def)
  from r m quote_a_slash_b g show ?thesis by blast
qed

text \<open>
  C6, amended. For a non-empty query of encodable code points, \<open>search\<close> calls the
  Gateway with \<open>search/{type}?q={encoded}&limit=10\<close>, the type being \<open>track\<close> when absent,
  where \<open>encoded\<close> writes every UTF-8 byte of the query other than a letter, a digit, one
  of \<open>_.-~\<close> or \<open>/\<close> as \<open>%XX\<close>; it consists of those characters and \<open>%\<close> only. For
  the query \<open>abc\<close> without a type the endpoint is \<open>search/track?q=abc&limit=10\<close>. The
  call is made with a standard output that accepts every line, and with any standard
  output that accepts the three lines printed before the call.
\<close>

theorem search_endpoint_percent_encoded:
  assumes "args_get args (ustr ''q'') [] = q" and "q \<noteq> []" and "\<forall>c\<in>set q. scalar_value c"
  shows "\<exists>bs. utf8_encode q = Inr bs \<and> (\<forall>b\<in>set bs. b < 256) \<and>
     gateway_calls (snd (search quiet g args s)) =
       gateway_calls s @ [ustr ''search/'' @ args_get args (ustr ''type'') (ustr ''track'') @
         ustr ''?q='' @ concat (map quoter bs) @ ustr ''&limit=10''] \<and>
     (\<forall>c\<in>set (concat (map quoter bs)). always_safe c \<or> c = 47 \<or> c = 37) \<and>
     (out (SearchCalled q (args_get args (ustr ''type'') (ustr ''track''))) = None \<and>
      out (SearchingFor q (args_get args (ustr ''type'') (ustr ''track''))) = None \<and>
      out (ApiUrl (DEEZER_BASE_URL @ ustr ''/'' @ ustr ''search/'' @
             args_get args (ustr ''type'') (ustr ''track'') @ ustr ''?q='' @
             concat (map quoter bs) @ ustr ''&limit=10'')) = None \<longrightarrow>
      gateway_calls (snd (search out g args s)) =
        gateway_calls s @ [ustr ''search/'' @ args_get args (ustr ''type'') (ustr ''track'') @
          ustr ''?q='' @ concat (map quoter bs) @ ustr ''&limit=10''])"
proof -
  from assms(3) obtain bs where bs: "utf8_encode q = Inr bs" "\<forall>b\<in>set bs. b < 256"
    using utf8_encode_bytes by blast
  with assms(2) have q: "quote q = Inr (concat (map quoter bs))" by (simp add: quote_def)
  have c: "gateway_calls (snd (search quiet g args s)) =
       gateway_calls s @ [ustr ''search/'' @ args_get args (ustr ''type'') (ustr ''track'') @
         ustr ''?q='' @ concat (map quoter bs) @ ustr ''&limit=10'']"
    using assms(1,2) q by (intro search_gateway_call_quiet) simp_all
  have d: "out (SearchCalled q (args_get args (ustr ''type'') (ustr ''track''))) = None \<and>
      out (SearchingFor q (args_get args (ustr ''type'') (ustr ''track''))) = None \<and>
      out (ApiUrl (DEEZER_BASE_URL @ ustr ''/'' @ ustr ''search/'' @
             args_get args (ustr ''type'') (ustr ''track'') @ ustr ''?q='' @
             concat (map quoter bs) @ ustr ''&limit=10'')) = None \<longrightarrow>
      gateway_calls (snd (search out g args s)) =
        gateway_calls s @ [ustr ''search/'' @ args_get args (ustr ''type'') (ustr ''track'') @
          ustr ''?q='' @ concat (map quoter bs) @ ustr ''&limit=10'']"
    using assms(1,2) q by (intro impI search_gateway_call) simp_all
  have "\<forall>c\<in>set (concat (map quoter bs)). always_safe c \<or> c = 47 \<or> c = 37"
    using bs(2) quoter_chars by auto
  with bs c d show ?thesis by blast
qed

theorem search_endpoint_percent_encoded_witness:
  "args_get [(ustr ''q'', ustr ''abc'')] (ustr ''q'') [] = ustr ''abc'' \<and> ustr ''abc'' \<noteq> [] \<and>
   list_all scalar_value (ustr ''abc'') \<and>
   gateway_calls (snd (search quiet (failing Timeout) [(ustr ''q'', ustr ''abc'')] init)) =
     [ustr ''search/track?q=abc&limit=10'']"
proof -
  have h: "args_get [(ustr ''q'', ustr ''abc'')] (ustr ''q'') [] = ustr ''abc''"
    "ustr ''abc'' \<noteq> []" "\<forall>c\<in>set (ustr ''abc''). scalar_value c"
    by (simp_all add: args_get_def ustr_def scalar_value_def)
  have t: "args_get [(ustr ''q'', ustr ''abc'')] (ustr ''type'') (ustr ''track'') = ustr ''track''"
    by (simp add: args_get_def ustr_def)
  have e: "utf8_encode (ustr ''abc'') = Inr (ustr ''abc'')"
    by (simp add: ustr_def utf8_char_def)
  have q: "concat (map quoter (ustr ''abc'')) = ustr ''abc''"
    by (simp add: ustr_def quoter_def always_safe_def)
  from search_endpoint_percent_encoded [OF h, of "failing Timeout" init quiet] e q t
  have "gateway_calls (snd (search quiet (failing Timeout) [(ustr ''q'', ustr ''abc'')] init)) =
     [ustr ''search/track?q=abc&limit=10'']"
    by (auto simp: init_def ustr_def)
  with h show ?thesis by (simp add: list_all_iff)
qed

text \<open>
  C7. With a standard output that accepts every line, \<open>artist_detail\<close> makes exactly
  two Gateway calls, \<open>artist/{id}\<close> and then \<open>artist/{id}/top?limit=10\<close>, neither endpoint
  depending on a result, and renders both results under the distinct keys \<open>data\<close> and
  \<open>top_tracks\<close>, whatever they are.
\<close>

theorem artist_detail_two_calls:
  "\<exists>artist_data top_tracks s1 s2.
     make_api_request quiet g (ustr ''artist/'' @ artist_id) s = (Inr artist_data, s1) \<and>
     make_api_request quiet g (ustr ''artist/'' @ artist_id @ ustr ''/top?limit=10'') s1 =
       (Inr top_tracks, s2) \<and>
     artist_detail quiet g artist_id s =
       (Inr (Rendered (ustr ''detail.html'')
          [(ustr ''data'', Payload artist_data),
           (ustr ''top_tracks'', Payload top_tracks),
           (ustr ''title'', Text (ustr ''Artist Details'')),
           (ustr ''type'', Text (ustr ''artist''))]), s2) \<and>
     gateway_calls s2 = gateway_calls s @
       [ustr ''artist/'' @ artist_id, ustr ''artist/'' @ artist_id @ ustr ''/top?limit=10''] \<and>
     ustr ''data'' \<noteq> ustr ''top_tracks''"
proof -
  obtain a s1 where 1: "make_api_request quiet g (ustr ''artist/'' @ artist_id) s = (Inr a, s1)"
    and g1: "gateway_calls s1 = gateway_calls s @ [ustr ''artist/'' @ artist_id]"
    using make_api_request_quiet_split [of g "ustr ''artist/'' @ artist_id" s] by auto
  obtain t s2 where 2: "make_api_request quiet g
      (ustr ''artist/'' @ artist_id @ ustr ''/top?limit=10'') s1 = (Inr t, s2)"
    and g2: "gateway_calls s2 =
      gateway_calls s1 @ [ustr ''artist/'' @ artist_id @ ustr ''/top?limit=10'']"
    using make_api_request_quiet_split
      [of g "ustr ''artist/'' @ artist_id @ ustr ''/top?limit=10''" s1]
    by auto
  have 3: "artist_detail quiet g artist_id s =
       (Inr (Rendered (ustr ''detail.html'')
          [(ustr ''data'', Payload a),
           (ustr ''top_tracks'', Payload t),
           (ustr ''title'', Text (ustr ''Artist Details'')),
           (ustr ''type'', Text (ustr ''artist''))]), s2)"
    using 1 2 by (simp add: artist_detail_def)
  have 4: "ustr ''data'' \<noteq> ustr ''top_tracks''" by (simp add: ustr_def)
  from 1 2 3 4 g1 g2 show ?thesis by auto
qed

text \<open>An instance where the first result is \<open>None\<close> and the second is a payload.\<close>

lemma artist_detail_one_absent:
  "fst (artist_detail quiet flaky (ustr ''27'')
     \<lparr>world = 0, gateway_calls = [], http_gets = []\<rparr>) =
     Inr (Rendered (ustr ''detail.html'')
          [(ustr ''data'', Payload JNull),
           (ustr ''top_tracks'', Payload (JDict [(ustr ''data'', JList [])])),
           (ustr ''title'', Text (ustr ''Artist Details'')),
           (ustr ''type'', Text (ustr ''artist''))])"
  by (simp add: artist_detail_def make_api_request_quiet Let_def flaky_def dict_has_key_def
      ustr_def)

text \<open>
  With any standard output, the second call is made whenever the first one returns,
  whatever it returns; when the first one raises, the handler raises.
\<close>

lemma artist_detail_first_call:
  "make_api_request out g (ustr ''artist/'' @ artist_id) s = (Inl x, s1) \<Longrightarrow>
   artist_detail out g artist_id s = (Inl x, s1)"
  by (simp add: artist_detail_def)

lemma artist_detail_second_call:
  "make_api_request out g (ustr ''artist/'' @ artist_id) s = (Inr v, s1) \<Longrightarrow>
   gateway_calls (snd (artist_detail out g artist_id s)) = gateway_calls s @
     [ustr ''artist/'' @ artist_id, ustr ''artist/'' @ artist_id @ ustr ''/top?limit=10'']"
proof -
  assume a: "make_api_request out g (ustr ''artist/'' @ artist_id) s = (Inr v, s1)"
  have "gateway_calls (snd (make_api_request out g (ustr ''artist/'' @ artist_id) s)) =
      gateway_calls s @ [ustr ''artist/'' @ artist_id]"
    by (rule gateway_calls_make_api_request)
  with a have g1: "gateway_calls s1 = gateway_calls s @ [ustr ''artist/'' @ artist_id]" by simp
  have "snd (artist_detail out g artist_id s) =
      snd (make_api_request out g (ustr ''artist/'' @ artist_id @ ustr ''/top?limit=10'') s1)"
    using a by (simp add: artist_detail_def split: prod.splits sum.splits)
  with g1 show ?thesis by (simp add: gateway_calls_make_api_request)
qed

text \<open>
  The \<open>except Exception\<close> clause of \<open>search\<close> catches whatever its \<open>try\<close> block raises:
  with a standard output that accepts every line the handler returns a page, with the
  error text when something was raised.
\<close>

lemma search_returns_page: "\<exists>p. fst (search quiet g args s) = Inr p"
  by (simp add: search_def print_then_quiet split: prod.splits sum.splits)

lemma search_diagnostics_error:
  "fst (search quiet
     (serving \<lparr>status_code = 200, json_result = Inr (JDict [(ustr ''data'', JInt 5)])\<rparr>)
     [(ustr ''q'', ustr ''abc'')] init) =
   Inr (Rendered (ustr ''search.html'')
       [(ustr ''results'', Payload JNull),
        (ustr ''query'', Text (ustr ''abc'')),
        (ustr ''search_type'', Text (ustr ''track'')),
        (ustr ''error'', ErrorText TypeError)])"
  by (simp add: search_def search_try_def Let_def quote_def ustr_def utf8_char_def quoter_def
      always_safe_def make_api_request_quiet serving_def init_def search_diagnostics_def
      args_get_def dict_has_key_def py_len_def quiet_def print_then_def)

end
